theory Spec2Isabelle
  imports Main "HOL-Library.Sublist"
begin

section \<open>Strings\<close>

text \<open>
  Python \<^verbatim>\<open>str\<close> values are modelled as \<^typ>\<open>string\<close>, one \<^typ>\<open>char\<close> per code point,
  for code points below 256 (every literal of \<^verbatim>\<open>app.py\<close> lies in that range).
  \<^verbatim>\<open>bytes\<close> values are lists of 8-bit characters as well.
\<close>

type_synonym bytes = "char list"

text \<open>The characters \<^verbatim>\<open>str.strip()\<close> removes: Python's whitespace below code point 256.\<close>

definition is_space :: "char \<Rightarrow> bool" where
  "is_space c \<longleftrightarrow> (of_char c :: nat) \<in> {9, 10, 11, 12, 13, 28, 29, 30, 31, 32, 133, 160}"

definition strip :: "string \<Rightarrow> string" where
  "strip s = rev (dropWhile is_space (rev (dropWhile is_space s)))"

text \<open>\<^verbatim>\<open>a or b\<close> on strings: the empty string is falsy.\<close>

definition or_str :: "string \<Rightarrow> string \<Rightarrow> string" where
  "or_str a b = (if a = [] then b else a)"

text \<open>\<^verbatim>\<open>str.lower()\<close> below code point 256: A-Z and the Latin-1 capitals.\<close>

definition lower_char :: "char \<Rightarrow> char" where
  "lower_char c =
     (let n = (of_char c :: nat)
      in if (65 \<le> n \<and> n \<le> 90) \<or> (192 \<le> n \<and> n \<le> 222 \<and> n \<noteq> 215)
         then char_of (n + 32) else c)"

definition lower :: "string \<Rightarrow> string" where
  "lower s = map lower_char s"

definition endswith :: "string \<Rightarrow> string \<Rightarrow> bool" where
  "endswith s suf \<longleftrightarrow> length suf \<le> length s \<and> drop (length s - length suf) s = suf"

text \<open>\<^verbatim>\<open>"\n".join(xs)\<close>.\<close>

fun join_nl :: "string list \<Rightarrow> string" where
  "join_nl [] = []"
| "join_nl [x] = x"
| "join_nl (x # y # ys) = x @ ''\<newline>'' @ join_nl (y # ys)"

text \<open>\<^verbatim>\<open>s.split(sep)\<close> for a one-character separator.\<close>

fun split_on :: "char \<Rightarrow> string \<Rightarrow> string list" where
  "split_on d [] = [[]]"
| "split_on d (c # cs) =
     (if c = d then [] # split_on d cs
      else (case split_on d cs of [] \<Rightarrow> [[c]] | w # ws \<Rightarrow> (c # w) # ws))"

section \<open>Exceptions and responses\<close>

text \<open>
  An exception is a value. \<open>External m\<close> is an exception raised inside a library or a
  remote service, with \<open>m\<close> its \<^verbatim>\<open>str()\<close>; \<open>OSError m\<close> is an error of the operating
  system other than the three named ones; the others are the built-in ones the handler's
  own expressions and the path operations can raise.
\<close>

datatype exn =
    RuntimeError
  | ValueError
  | FileNotFoundError
  | FileExistsError
  | NotADirectoryError
  | OSError string
  | IndexError
  | AttributeError
  | External string

text \<open>What \<^verbatim>\<open>except OSError\<close> catches.\<close>

fun is_OSError :: "exn \<Rightarrow> bool" where
  "is_OSError FileNotFoundError = True"
| "is_OSError FileExistsError = True"
| "is_OSError NotADirectoryError = True"
| "is_OSError (OSError m) = True"
| "is_OSError _ = False"

fun str_exn :: "exn \<Rightarrow> string" where
  "str_exn RuntimeError = ''Could not determine home directory.''"
| "str_exn ValueError = ''embedded null byte''"
| "str_exn FileNotFoundError = ''[Errno 2] No such file or directory''"
| "str_exn FileExistsError = ''[Errno 17] File exists''"
| "str_exn NotADirectoryError = ''[Errno 20] Not a directory''"
| "str_exn (OSError m) = m"
| "str_exn IndexError = ''list index out of range''"
| "str_exn AttributeError =
     [CHR 0x27] @ ''NoneType'' @ [CHR 0x27] @ '' object has no attribute '' @ [CHR 0x27] @ ''strip'' @ [CHR 0x27]"
| "str_exn (External m) = m"

text \<open>
  What a call of the handler ends with: a \<^verbatim>\<open>JSONResponse({"error": message}, status_code)\<close>,
  a \<^verbatim>\<open>StreamingResponse\<close> (body, media type, headers), or an exception that leaves the
  handler uncaught.
\<close>

datatype outcome =
    JSONResponse string nat
  | StreamingResponse bytes string "(string \<times> string) list"
  | Raised exn

definition json_error :: "string \<Rightarrow> nat \<Rightarrow> outcome" where
  "json_error message status_code = JSONResponse message status_code"

section \<open>Paths and the file system\<close>

text \<open>
  A \<^verbatim>\<open>pathlib.Path\<close> on POSIX: whether it is rooted, and its components. The
  constructor drops empty components and \<^verbatim>\<open>.\<close>, and keeps \<^verbatim>\<open>..\<close>.
\<close>

record ppath =
  is_absolute :: bool
  path_parts :: "string list"

definition Path :: "string \<Rightarrow> ppath" where
  "Path s =
     \<lparr>is_absolute = (case s of [] \<Rightarrow> False | c # _ \<Rightarrow> c = CHR ''/''),
      path_parts = filter (\<lambda>p. p \<noteq> [] \<and> p \<noteq> ''.'') (split_on CHR ''/'' s)\<rparr>"

text \<open>
  The file system: the directories that are recorded (the root \<open>[]\<close> among them) and the
  regular files with their contents. Paths are absolute, given by their components. A
  path is a directory when it and all its ancestors are recorded. Symbolic links are not
  modelled.
\<close>

record filesystem =
  fs_dirs :: "string list set"
  fs_files :: "string list \<rightharpoonup> bytes"

definition is_dir :: "filesystem \<Rightarrow> string list \<Rightarrow> bool" where
  "is_dir fs p \<longleftrightarrow> list_all (\<lambda>q. q \<in> fs_dirs fs) (prefixes p)"

text \<open>
  \<^verbatim>\<open>Path.resolve()\<close> of an absolute path without symbolic links: \<^verbatim>\<open>..\<close> removes the
  component before it, and stays at the root there. A component with a NUL character
  makes the system call underneath raise \<^verbatim>\<open>ValueError\<close>; the other errors of the
  system are ignored by \<^verbatim>\<open>resolve\<close> (it is not strict).
\<close>

definition has_nul :: "string \<Rightarrow> bool" where
  "has_nul s \<longleftrightarrow> CHR 0x00 \<in> set s"

definition resolve_step :: "string list \<Rightarrow> string \<Rightarrow> string list" where
  "resolve_step stack seg = (if seg = ''..'' then butlast stack else stack @ [seg])"

definition resolve :: "string list \<Rightarrow> exn + string list" where
  "resolve ps =
     (if list_ex has_nul ps then Inl ValueError else Inr (foldl resolve_step [] ps))"

text \<open>\<^verbatim>\<open>Path.parent\<close> and \<^verbatim>\<open>Path.name\<close> of an absolute path.\<close>

definition parent :: "string list \<Rightarrow> string list" where
  "parent p = butlast p"

definition name :: "string list \<Rightarrow> string" where
  "name p = (case rev p of [] \<Rightarrow> [] | n # _ \<Rightarrow> n)"

section \<open>The environment of the handler\<close>

datatype stage = Analysis | Draft | Edit

text \<open>The response object of the Gemini client, as \<^verbatim>\<open>_response_text\<close> reads it with
  \<^verbatim>\<open>getattr(_, _, None)\<close>: an attribute is \<open>None\<close> when it is absent or \<^verbatim>\<open>None\<close>
  (for the text attributes: or not a \<^verbatim>\<open>str\<close>). The top-level \<^verbatim>\<open>text\<close> of the client's
  response is a property that raises when the response holds no simple text, and
  \<^verbatim>\<open>getattr\<close> lets every exception but \<^verbatim>\<open>AttributeError\<close> through: reading it gives
  the exception (\<open>Inl\<close>) or the value. The other attributes are plain fields.\<close>

record part =
  part_text :: "string option"

record gcontent =
  content_parts :: "part list option"

record candidate =
  cand_content :: "gcontent option"

record gresponse =
  resp_text :: "exn + string option"
  resp_candidates :: "candidate list option"

text \<open>The chat completion: \<^verbatim>\<open>choices\<close>, each with its \<^verbatim>\<open>message.content\<close>
  (\<open>None\<close> for \<^verbatim>\<open>None\<close>).\<close>

record cresponse =
  choices :: "string option list"

record message =
  role :: string
  content :: string

text \<open>
  Everything outside the handler. \<open>base_dir\<close> is \<^verbatim>\<open>BASE_DIR\<close>, the resolved directory
  of \<^verbatim>\<open>app.py\<close>; \<open>default_google_model\<close> is \<^verbatim>\<open>DEFAULT_GOOGLE_MODEL\<close>, read from the
  process environment at start. \<open>home_of u\<close> is the home directory of user \<open>u\<close> (the
  current user for the empty name), \<open>None\<close> when it cannot be determined.
  \<open>os_error fs p\<close> is the error, if any, that the operating system gives priority to
  when asked to create the directory \<open>p\<close> in the state \<open>fs\<close> (no permission, a name
  that is too long, a read-only file system). The other
  fields are the external calls, each returning its value or the exception it raises.
  The provider calls take the stage as well, so that a provider may answer the same
  prompt differently at each call; their fixed arguments (timeout, temperature, transport)
  are left out.
\<close>

record env =
  base_dir :: "string list"
  default_google_model :: string
  home_of :: "string \<Rightarrow> string list option"
  os_error :: "filesystem \<Rightarrow> string list \<Rightarrow> exn option"
  pdf_reader :: "bytes \<Rightarrow> exn + (exn + string) list"
  decode_utf8_ignore :: "bytes \<Rightarrow> string"
  genai_init :: "string \<Rightarrow> string \<Rightarrow> string \<Rightarrow> exn option"
  generate_content :: "stage \<Rightarrow> string \<Rightarrow> string \<Rightarrow> exn + gresponse"
  openai_init :: "string \<Rightarrow> exn option"
  chat_completions_create :: "stage \<Rightarrow> string \<Rightarrow> message list \<Rightarrow> exn + cresponse"
  markdown :: "string \<Rightarrow> exn + string"
  write_pdf :: "string \<Rightarrow> exn + bytes"

text \<open>The calls to providers and to the renderer that a run of the handler issues, in order.\<close>

datatype event =
    GenaiInit string string string
  | OpenAIInit string
  | GenerateContent stage string string
  | ChatCreate stage string "message list"
  | MarkdownCall string
  | WritePdfCall string

section \<open>The request\<close>

record upload =
  up_filename :: "string option"
  up_body :: bytes

text \<open>The multipart form: \<open>None\<close> is a field that was not sent (for the files, the
  default of the parameter is \<^verbatim>\<open>None\<close> itself).\<close>

record request =
  form_text_content :: "string option"
  form_personality :: "string option"
  form_google_api_key :: "string option"
  form_openai_api_key :: "string option"
  form_output_path :: "string option"
  form_google_model :: "string option"
  form_google_edit_model :: "string option"
  form_openai_model :: "string option"
  form_files :: "upload list option"

definition Form :: "'a \<Rightarrow> 'a option \<Rightarrow> 'a" where
  "Form d v = (case v of None \<Rightarrow> d | Some x \<Rightarrow> x)"


section \<open>Output path (lines 164 to 171)\<close>

text \<open>
  \<^verbatim>\<open>Path.expanduser()\<close>: a relative path whose first component starts with \<^verbatim>\<open>~\<close> is
  rebuilt on the home directory of the user named after the tilde; it raises
  \<^verbatim>\<open>RuntimeError\<close> when that directory cannot be determined, and \<^verbatim>\<open>ValueError\<close> when
  the user name holds a NUL character (the lookup in the password database raises it).
\<close>

definition expanduser :: "env \<Rightarrow> ppath \<Rightarrow> exn + ppath" where
  "expanduser env p =
     (case path_parts p of
        [] \<Rightarrow> Inr p
      | first # rest \<Rightarrow>
          (case first of
             [] \<Rightarrow> Inr p
           | c # user \<Rightarrow>
               if \<not> is_absolute p \<and> c = CHR ''~'' then
                 (if has_nul user then Inl ValueError
                  else
                    (case home_of env user of
                       None \<Rightarrow> Inl RuntimeError
                     | Some home \<Rightarrow> Inr \<lparr>is_absolute = True, path_parts = home @ rest\<rparr>))
               else Inr p))"

definition DEFAULT_OUTPUT_PDF :: "env \<Rightarrow> string list" where
  "DEFAULT_OUTPUT_PDF env = base_dir env @ [''ebook_gerado.pdf'']"

definition resolve_output_pdf :: "env \<Rightarrow> string \<Rightarrow> exn + string list" where
  "resolve_output_pdf env output_path_raw =
     (if output_path_raw \<noteq> [] then
        (case expanduser env (Path output_path_raw) of
           Inl exc \<Rightarrow> Inl exc
         | Inr output_pdf \<Rightarrow>
             if \<not> is_absolute output_pdf
             then resolve (base_dir env @ path_parts output_pdf)
             else resolve (path_parts output_pdf))
      else Inr (DEFAULT_OUTPUT_PDF env))"

section \<open>Creating the parent directory (line 173)\<close>

text \<open>
  \<^verbatim>\<open>os.mkdir\<close>: the error the operating system gives priority to, if any; otherwise
  the walk to the parent must meet no regular file and must end in a directory, the path
  itself must not exist, and the path is then recorded.
\<close>

definition os_mkdir :: "env \<Rightarrow> filesystem \<Rightarrow> string list \<Rightarrow> exn + filesystem" where
  "os_mkdir env fs p =
     (case os_error env fs p of
        Some exc \<Rightarrow> Inl exc
      | None \<Rightarrow>
          if list_ex (\<lambda>q. fs_files fs q \<noteq> None) (prefixes (butlast p))
          then Inl NotADirectoryError
          else if \<not> is_dir fs (butlast p) then Inl FileNotFoundError
          else if p \<in> fs_dirs fs \<or> fs_files fs p \<noteq> None then Inl FileExistsError
          else Inr (fs\<lparr>fs_dirs := insert p (fs_dirs fs)\<rparr>))"

text \<open>
  \<^verbatim>\<open>Path.mkdir\<close> as the library defines it. The result is the file system afterwards
  and the exception raised, if any: the ancestors created before a failure stay.
  \<open>mkdir_once\<close> is the call with \<^verbatim>\<open>parents=False, exist_ok=True\<close>: any
  \<^verbatim>\<open>OSError\<close> but \<^verbatim>\<open>FileNotFoundError\<close> is swallowed when the path is a directory.
  \<open>mkdir\<close> is the call of line 173, with \<^verbatim>\<open>parents=True, exist_ok=True\<close>: on
  \<^verbatim>\<open>FileNotFoundError\<close> it creates the parent in the same way and then the path with
  \<open>mkdir_once\<close>, unless the path is its own parent.
\<close>

definition mkdir_once :: "env \<Rightarrow> filesystem \<Rightarrow> string list \<Rightarrow> filesystem \<times> exn option" where
  "mkdir_once env fs p =
     (case os_mkdir env fs p of
        Inr fs' \<Rightarrow> (fs', None)
      | Inl exc \<Rightarrow>
          if exc = FileNotFoundError then (fs, Some exc)
          else if is_OSError exc \<and> is_dir fs p then (fs, None)
          else (fs, Some exc))"

function mkdir :: "env \<Rightarrow> filesystem \<Rightarrow> string list \<Rightarrow> filesystem \<times> exn option" where
  "mkdir env fs p =
     (case os_mkdir env fs p of
        Inr fs' \<Rightarrow> (fs', None)
      | Inl exc \<Rightarrow>
          if exc = FileNotFoundError then
            (if p = [] then (fs, Some exc)
             else
               (case mkdir env fs (butlast p) of
                  (fs1, Some exc1) \<Rightarrow> (fs1, Some exc1)
                | (fs1, None) \<Rightarrow> mkdir_once env fs1 p))
          else if is_OSError exc \<and> is_dir fs p then (fs, None)
          else (fs, Some exc))"
  by pat_completeness auto
termination
  by (relation "measure (\<lambda>(env, fs, p). length p)") auto

declare mkdir.simps [simp del]

section \<open>Response text (lines 70 to 92)\<close>

text \<open>The two nested iterations of \<^verbatim>\<open>_response_text\<close>, with the list \<^verbatim>\<open>collected\<close> they append to.\<close>

fun collect_parts :: "string list \<Rightarrow> part list \<Rightarrow> string list" where
  "collect_parts collected [] = collected"
| "collect_parts collected (p # ps) =
     (case part_text p of
        Some t \<Rightarrow> collect_parts (collected @ [t]) ps
      | None \<Rightarrow> collect_parts collected ps)"

fun collect_candidates :: "string list \<Rightarrow> candidate list \<Rightarrow> string list" where
  "collect_candidates collected [] = collected"
| "collect_candidates collected (c # cs) =
     (case cand_content c of
        None \<Rightarrow> collect_candidates collected cs
      | Some cont \<Rightarrow>
          (case content_parts cont of
             None \<Rightarrow> collect_candidates collected cs
           | Some ps \<Rightarrow>
               if ps = [] then collect_candidates collected cs
               else collect_candidates (collect_parts collected ps) cs))"

definition response_text_fallback :: "gresponse \<Rightarrow> string" where
  "response_text_fallback response =
     (case resp_candidates response of
        None \<Rightarrow> []
      | Some cands \<Rightarrow> if cands = [] then [] else concat (collect_candidates [] cands))"

definition response_text :: "gresponse \<Rightarrow> exn + string" where
  "response_text response =
     (case resp_text response of
        Inl exc \<Rightarrow> Inl exc
      | Inr text_attr \<Rightarrow>
          (case text_attr of
             Some t \<Rightarrow> if strip t \<noteq> [] then Inr t else Inr (response_text_fallback response)
           | None \<Rightarrow> Inr (response_text_fallback response)))"


section \<open>Uploads (lines 95 to 112)\<close>

text \<open>The loop over the pages of one document, appending to \<^verbatim>\<open>texts\<close>; a page is the
  result of its \<^verbatim>\<open>extract_text()\<close>.\<close>

fun extract_pages :: "string list \<Rightarrow> (exn + string) list \<Rightarrow> exn + string list" where
  "extract_pages texts [] = Inr texts"
| "extract_pages texts (page # pages) =
     (case page of
        Inl exc \<Rightarrow> Inl exc
      | Inr page_text \<Rightarrow>
          extract_pages (if page_text \<noteq> [] then texts @ [page_text] else texts) pages)"

fun extract_loop :: "env \<Rightarrow> string list \<Rightarrow> upload list \<Rightarrow> exn + string list" where
  "extract_loop env texts [] = Inr texts"
| "extract_loop env texts (storage # rest) =
     (let filename = lower (case up_filename storage of None \<Rightarrow> [] | Some f \<Rightarrow> f);
          file_bytes = up_body storage
      in if file_bytes = [] then extract_loop env texts rest
         else if endswith filename ''.pdf'' then
           (case pdf_reader env file_bytes of
              Inl exc \<Rightarrow> Inl exc
            | Inr pages \<Rightarrow>
                (case extract_pages texts pages of
                   Inl exc \<Rightarrow> Inl exc
                 | Inr texts' \<Rightarrow> extract_loop env texts' rest))
         else if endswith filename ''.txt'' then
           extract_loop env (texts @ [decode_utf8_ignore env file_bytes]) rest
         else extract_loop env texts rest)"

definition extract_text_from_uploads :: "env \<Rightarrow> upload list \<Rightarrow> exn + string list" where
  "extract_text_from_uploads env files = extract_loop env [] files"

text \<open>
  What one upload contributes, as the specification words it: nothing for an empty
  body, the non-empty page texts in page order for a page document, the decoded text for
  a plain-text file, nothing for any other extension.
\<close>

definition fragments_of :: "env \<Rightarrow> upload \<Rightarrow> string list" where
  "fragments_of env u =
     (let filename = lower (case up_filename u of None \<Rightarrow> [] | Some f \<Rightarrow> f)
      in if up_body u = [] then []
         else if endswith filename ''.pdf'' then
           (case pdf_reader env (up_body u) of
              Inl exc \<Rightarrow> []
            | Inr pages \<Rightarrow> filter (\<lambda>t. t \<noteq> []) (map (\<lambda>pg. case pg of Inl exc \<Rightarrow> [] | Inr t \<Rightarrow> t) pages))
         else if endswith filename ''.txt'' then [decode_utf8_ignore env (up_body u)]
         else [])"

text \<open>A page document that the reader parses and whose pages all yield their text.\<close>

definition readable :: "env \<Rightarrow> upload \<Rightarrow> bool" where
  "readable env u \<longleftrightarrow>
     (let filename = lower (case up_filename u of None \<Rightarrow> [] | Some f \<Rightarrow> f)
      in up_body u \<noteq> [] \<and> endswith filename ''.pdf'' \<longrightarrow>
         (case pdf_reader env (up_body u) of
            Inl exc \<Rightarrow> False
          | Inr pages \<Rightarrow> list_all (\<lambda>pg. case pg of Inl exc \<Rightarrow> False | Inr t \<Rightarrow> True) pages))"

section \<open>Prompts (lines 240 to 301)\<close>

text \<open>
  The literals of the three prompts, cut at their placeholders. The draft and the edit
  template are stripped where they are defined, before \<^verbatim>\<open>format\<close>; the analysis
  prompt is an f-string, stripped after its fields are filled in.
\<close>

definition content_prompt_0 :: string where
  \<open>content_prompt_0 =
     ''Voce e um escritor profissional de ebooks mestre em markdown com a personalidade e habilidades definidas pelo usuario: "''\<close>

definition content_prompt_1 :: string where
  \<open>content_prompt_1 =
     ''".\<newline>'' @
     ''Sua tarefa e elaborar um manuscrito completo e altamente profissional, utilizando **exclusivamente** o conteudo principal e as referencias fornecidas.\<newline>'' @
     ''\<newline>'' @
     ''**Resumo pre-analisado pelo assistente (use como guia de estrutura):**\<newline>''\<close>

definition content_prompt_2 :: string where
  \<open>content_prompt_2 =
     ''\<newline>'' @
     ''\<newline>'' @
     ''**Instrucoes obrigatorias:**\<newline>'' @
     ''1.  **Estrutura:** Construa uma narrativa coesa com Introducao, capitulos bem estruturados, subtitulos e uma conclusao forte.\<newline>'' @
     ''2.  **Conteudo:** Use apenas o material fornecido. **Nao** introduza informacoes externas, opinioes ou historias que nao estejam no material.\<newline>'' @
     ''3.  **Formato:** O resultado deve ser **Markdown otimizado para conversao em PDF especificamente para o formato de ebook**, sem comentarios, explicacoes ou textos adicionais.\<newline>'' @
     ''4.  **Quebras de pagina:** Para forcar uma nova pagina no PDF (ideal para o inicio de capitulos ou secoes principais), utilize a tag HTML `<div class="page-break"></div>` imediatamente antes do cabecalho do novo capitulo.\<newline>'' @
     ''5.  **Sumario e indice:** Inclua um Sumario conciso e envolvente no inicio. O Indice deve listar os titulos dos capitulos. **Nao** inclua numeros de pagina no Indice, pois eles serao gerados dinamicamente no PDF.\<newline>'' @
     ''6.  **Tom:** Adote um tom corporativo, convincente e refinado, conforme a personalidade definida.\<newline>'' @
     ''\<newline>'' @
     ''**Regras de exclusao (nao incluir no texto):**\<newline>'' @
     ''*   A frase: "Gerado pelo seu agente de ebooks."\<newline>'' @
     ''*   Comentarios sobre o conteudo do texto principal.\<newline>'' @
     ''*   Comentarios iniciais antes de comecar o conteudo.\<newline>'' @
     ''*   Secoes de credito, autor, agradecimentos ou qualquer mensagem sobre geracao automatica.\<newline>'' @
     ''*   Linhas dedicadas a numero de pagina ou notas internas.\<newline>'' @
     ''\<newline>'' @
     ''**Conteudo para elaboracao:**\<newline>'' @
     ''Conteudo principal:\<newline>''\<close>

definition content_prompt_3 :: string where
  \<open>content_prompt_3 =
     ''\<newline>'' @
     ''\<newline>'' @
     ''Referencias adicionais:\<newline>''\<close>

definition analysis_prompt_0 :: string where
  \<open>analysis_prompt_0 =
     ''\<newline>'' @
     ''Voce e um analista editorial especializado em ebooks. Leia o material abaixo e produza um resumo estruturado contendo:\<newline>'' @
     ''- Principais temas, personagens, dados ou argumentos essenciais.\<newline>'' @
     ''- Referencias cruzadas importantes vindas dos anexos (quando existirem).\<newline>'' @
     ''- Sugestao de estrutura para o ebook (introducao, capitulos e conclusao).\<newline>'' @
     ''- Vocabulario-chave, tom desejado e alertas do que **nao** deve ser alterado.\<newline>'' @
     ''\<newline>'' @
     ''Responda em no maximo 250 palavras, usando Markdown com secoes claras.\<newline>'' @
     ''\<newline>'' @
     ''**Conteudo principal:**\<newline>''\<close>

definition analysis_prompt_1 :: string where
  \<open>analysis_prompt_1 =
     ''\<newline>'' @
     ''\<newline>'' @
     ''**Referencias adicionais:**\<newline>''\<close>

definition analysis_prompt_2 :: string where
  \<open>analysis_prompt_2 =
     ''\<newline>''\<close>

definition edit_prompt_0 :: string where
  \<open>edit_prompt_0 =
     ''Voc'' @ [CHR 0xEA] @ '' '' @ [CHR 0xE9] @ '' um editor s'' @ [CHR 0xEA] @ ''nior de publica'' @ [CHR 0xE7] @ [CHR 0xF5] @ ''es profissionais com a personalidade e habilidades definidas pelo usu'' @ [CHR 0xE1] @ ''rio.\<newline>'' @
     ''Sua tarefa '' @ [CHR 0xE9] @ '' revisar o rascunho a seguir para garantir a m'' @ [CHR 0xE1] @ ''xima qualidade e fidelidade ao material original.\<newline>'' @
     ''\<newline>'' @
     ''**Rascunho Recebido:**\<newline>''\<close>

definition edit_prompt_1 :: string where
  \<open>edit_prompt_1 =
     ''\<newline>'' @
     ''\<newline>'' @
     ''**DIRETRIZES DE EDI'' @ [CHR 0xC7] @ [CHR 0xC3] @ ''O:**\<newline>'' @
     ''1.  **Clareza e Coer'' @ [CHR 0xEA] @ ''ncia:** Eleve a clareza, a fluidez e a coer'' @ [CHR 0xEA] @ ''ncia, preservando o significado original.\<newline>'' @
     ''2.  **Corre'' @ [CHR 0xE7] @ [CHR 0xE3] @ ''o:** Corrija erros de gram'' @ [CHR 0xE1] @ ''tica, ortografia, pontua'' @ [CHR 0xE7] @ [CHR 0xE3] @ ''o e estilo.\<newline>'' @
     ''3.  **Formato:** Ajuste o Markdown para manter cabe'' @ [CHR 0xE7] @ ''alhos consistentes, par'' @ [CHR 0xE1] @ ''grafos equilibrados e listas claras. Mantenha as tags `<div class="page-break"></div>` onde estiverem.\<newline>'' @
     ''4.  **Limpeza:** Elimine qualquer refer'' @ [CHR 0xEA] @ ''ncia a autores, fontes, ferramentas ou processos de gera'' @ [CHR 0xE7] @ [CHR 0xE3] @ ''o.\<newline>'' @
     ''5.  **Resultado Final:** O resultado deve ser o texto final em Markdown otimizado para convers'' @ [CHR 0xE3] @ ''o em PDF especificamente para o formato de ebook, pronto para ser convertido em PDF com layouts bonitos e profissionais.''\<close>

definition content_prompt_template_format :: "string \<Rightarrow> string \<Rightarrow> string \<Rightarrow> string \<Rightarrow> string" where
  "content_prompt_template_format personality analysis_summary text_content references =
     content_prompt_0 @ personality @ content_prompt_1 @ analysis_summary @
     content_prompt_2 @ text_content @ content_prompt_3 @ references"

definition analysis_prompt :: "string \<Rightarrow> string \<Rightarrow> string" where
  "analysis_prompt text_content reference_text =
     strip (analysis_prompt_0 @ text_content @ analysis_prompt_1 @ reference_text @
            analysis_prompt_2)"

definition edit_prompt_format :: "string \<Rightarrow> string" where
  "edit_prompt_format raw_markdown = edit_prompt_0 @ raw_markdown @ edit_prompt_1"


section \<open>Provider selection (lines 205 to 235)\<close>

datatype client = Gemini string string | OpenAI string

definition init_model ::
  "env \<Rightarrow> string \<Rightarrow> string \<Rightarrow> string \<Rightarrow> string \<Rightarrow> string \<Rightarrow> event list \<times> (outcome + client)" where
  "init_model env google_api_key openai_api_key google_model_name google_edit_model_name
       openai_model_name =
     (if google_api_key \<noteq> [] then
        (case genai_init env google_api_key google_model_name google_edit_model_name of
           Some exc \<Rightarrow>
             ([GenaiInit google_api_key google_model_name google_edit_model_name],
              Inl (json_error
                (''Falha ao inicializar os modelos Gemini '' @ ''('' @ google_model_name @
                 ''/'' @ google_edit_model_name @ ''): '' @ str_exn exc) 400))
         | None \<Rightarrow>
             ([GenaiInit google_api_key google_model_name google_edit_model_name],
              Inr (Gemini google_model_name google_edit_model_name)))
      else if openai_api_key \<noteq> [] then
        (case openai_init env openai_api_key of
           Some exc \<Rightarrow>
             ([OpenAIInit openai_api_key],
              Inl (json_error (''Falha ao inicializar o cliente OpenAI: '' @ str_exn exc) 400))
         | None \<Rightarrow> ([OpenAIInit openai_api_key], Inr (OpenAI openai_model_name)))
      else
        ([], Inl (json_error ''Erro interno: Nenhuma chave de API v??lida foi processada.'' 500)))"

section \<open>Generation (lines 304 to 407)\<close>

text \<open>The body of each \<^verbatim>\<open>try\<close> of the Gemini path: the call, then
  \<^verbatim>\<open>_response_text(response).strip()\<close>; an exception of either lands in the
  \<^verbatim>\<open>except\<close> of the stage.\<close>

definition gemini_call :: "env \<Rightarrow> stage \<Rightarrow> string \<Rightarrow> string \<Rightarrow> exn + string" where
  "gemini_call env st model prompt =
     (case generate_content env st model prompt of
        Inl exc \<Rightarrow> Inl exc
      | Inr response \<Rightarrow>
          (case response_text response of
             Inl exc \<Rightarrow> Inl exc
           | Inr t \<Rightarrow> Inr (strip t)))"

definition gemini_generation ::
  "env \<Rightarrow> string \<Rightarrow> string \<Rightarrow> string \<Rightarrow> string \<Rightarrow> string \<Rightarrow> event list \<times> (outcome + string)" where
  "gemini_generation env content_model edit_model personality text_content reference_text =
     (let prompt1 = analysis_prompt text_content reference_text;
          ev1 = [GenerateContent Analysis content_model prompt1]
      in case gemini_call env Analysis content_model prompt1 of
           Inl exc \<Rightarrow>
             (ev1, Inl (json_error
                (''Falha ao analisar o conteudo antes da geracao (Gemini): '' @ str_exn exc) 500))
         | Inr analysis_summary \<Rightarrow>
             if analysis_summary = [] then
               (ev1, Inl (json_error
                  ''O modelo Gemini nao retornou um resumo na etapa de analise.'' 500))
             else
               let generation_prompt =
                     content_prompt_template_format personality analysis_summary
                       text_content reference_text;
                   ev2 = ev1 @ [GenerateContent Draft content_model generation_prompt]
               in (case gemini_call env Draft content_model generation_prompt of
                    Inl exc \<Rightarrow>
                      (ev2, Inl (json_error
                         (''Falha ao gerar o rascunho do ebook (Gemini): '' @ str_exn exc) 500))
                  | Inr raw_markdown \<Rightarrow>
                      if raw_markdown = [] then
                        (ev2, Inl (json_error
                           ''O modelo Gemini nao retornou texto para o rascunho.'' 500))
                      else
                        let edit_prompt_gemini = edit_prompt_format raw_markdown;
                            ev3 = ev2 @ [GenerateContent Edit edit_model edit_prompt_gemini]
                        in (case gemini_call env Edit edit_model edit_prompt_gemini of
                             Inl exc \<Rightarrow>
                               (ev3, Inl (json_error
                                  (''Falha ao editar o rascunho do ebook (Gemini): '' @
                                   str_exn exc) 500))
                           | Inr final_markdown \<Rightarrow>
                               if final_markdown = [] then
                                 (ev3, Inl (json_error
                                    ''O modelo Gemini nao retornou texto para a edicao final.''
                                    500))
                               else (ev3, Inr final_markdown))))"

text \<open>\<^verbatim>\<open>response.choices[0].message.content.strip()\<close>: an empty list of choices and a
  \<^verbatim>\<open>None\<close> content raise.\<close>

definition first_choice_stripped :: "cresponse \<Rightarrow> exn + string" where
  "first_choice_stripped response =
     (case choices response of
        [] \<Rightarrow> Inl IndexError
      | c # _ \<Rightarrow> (case c of None \<Rightarrow> Inl AttributeError | Some s \<Rightarrow> Inr (strip s)))"

definition openai_call :: "env \<Rightarrow> stage \<Rightarrow> string \<Rightarrow> message list \<Rightarrow> exn + string" where
  "openai_call env st model msgs =
     (case chat_completions_create env st model msgs of
        Inl exc \<Rightarrow> Inl exc
      | Inr response \<Rightarrow> first_choice_stripped response)"

text \<open>The two message lists of the chat provider: the prompt as the system turn, and a
  fixed user turn.\<close>

definition content_messages :: "string \<Rightarrow> message list" where
  "content_messages generation_prompt =
     [\<lparr>role = ''system'', content = generation_prompt\<rparr>,
      \<lparr>role = ''user'',
       content = ''Produza o ebook completo seguindo fielmente as instrucoes acima.''\<rparr>]"

definition edit_messages :: "string \<Rightarrow> message list" where
  "edit_messages raw_markdown =
     [\<lparr>role = ''system'', content = edit_prompt_format raw_markdown\<rparr>,
      \<lparr>role = ''user'', content = ''Por favor, revise o rascunho conforme as diretrizes.''\<rparr>]"

definition openai_generation ::
  "env \<Rightarrow> string \<Rightarrow> string \<Rightarrow> string \<Rightarrow> string \<Rightarrow> event list \<times> (outcome + string)" where
  "openai_generation env openai_model_name personality text_content reference_text =
     (let generation_prompt =
            content_prompt_template_format personality
              ''Sintese direta realizada pelo modelo OpenAI.'' text_content reference_text;
          ev1 = [ChatCreate Draft openai_model_name (content_messages generation_prompt)]
      in case openai_call env Draft openai_model_name (content_messages generation_prompt) of
           Inl exc \<Rightarrow>
             (ev1, Inl (json_error
                (''Falha ao gerar o rascunho do ebook (OpenAI): '' @ str_exn exc) 500))
         | Inr raw_markdown \<Rightarrow>
             if raw_markdown = [] then
               (ev1, Inl (json_error ''O modelo OpenAI nao retornou texto para o rascunho.'' 500))
             else
               let ev2 = ev1 @ [ChatCreate Edit openai_model_name (edit_messages raw_markdown)]
               in (case openai_call env Edit openai_model_name (edit_messages raw_markdown) of
                    Inl exc \<Rightarrow>
                      (ev2, Inl (json_error
                         (''Falha ao editar o rascunho do ebook (OpenAI): '' @ str_exn exc) 500))
                  | Inr final_markdown \<Rightarrow>
                      if final_markdown = [] then
                        (ev2, Inl (json_error
                           ''O modelo OpenAI nao retornou texto para a edicao final.'' 500))
                      else (ev2, Inr final_markdown)))"

definition generation ::
  "env \<Rightarrow> client \<Rightarrow> string \<Rightarrow> string \<Rightarrow> string \<Rightarrow> event list \<times> (outcome + string)" where
  "generation env model personality text_content reference_text =
     (case model of
        Gemini content_model edit_model \<Rightarrow>
          gemini_generation env content_model edit_model personality text_content reference_text
      | OpenAI openai_model_name \<Rightarrow>
          openai_generation env openai_model_name personality text_content reference_text)"

section \<open>Rendering and the response (lines 583 to 610)\<close>

definition render :: "env \<Rightarrow> string list \<Rightarrow> string \<Rightarrow> event list \<times> outcome" where
  \<open>render env output_pdf final_markdown =
     (case markdown env final_markdown of
        Inl exc \<Rightarrow> ([MarkdownCall final_markdown], Raised exc)
      | Inr html_content \<Rightarrow>
          (case write_pdf env html_content of
             Inl exc \<Rightarrow>
               ([MarkdownCall final_markdown, WritePdfCall html_content],
                json_error (''Falha ao gerar o PDF com WeasyPrint: '' @ str_exn exc) 500)
           | Inr pdf_bytes \<Rightarrow>
               ([MarkdownCall final_markdown, WritePdfCall html_content],
                StreamingResponse pdf_bytes ''application/pdf''
                  [(''Content-Disposition'',
                    ''attachment; filename="'' @ name output_pdf @ ''"'')])))\<close>

section \<open>The handler (lines 138 to 610)\<close>

text \<open>Lines 186 to 188: the uploads are read only when the list is there and not empty.\<close>

definition read_uploads :: "env \<Rightarrow> upload list option \<Rightarrow> exn + string list" where
  "read_uploads env files =
     (case files of
        None \<Rightarrow> Inr []
      | Some fls \<Rightarrow> if fls = [] then Inr [] else extract_text_from_uploads env fls)"

text \<open>
  \<open>generate_ebook env fs request\<close> is the file system after the call, the provider and
  renderer calls it issued, and what it ended with. Logging is left out.
\<close>

definition generate_ebook ::
  "env \<Rightarrow> filesystem \<Rightarrow> request \<Rightarrow> filesystem \<times> event list \<times> outcome" where
  \<open>generate_ebook env fs request =
     (let text_content = strip (or_str (Form [] (form_text_content request)) []);
          personality =
            or_str (strip (or_str (Form ''neutra'' (form_personality request)) ''neutra''))
              ''neutra'';
          google_api_key = strip (or_str (Form [] (form_google_api_key request)) []);
          openai_api_key = strip (or_str (Form [] (form_openai_api_key request)) []);
          output_path_raw = strip (or_str (Form [] (form_output_path request)) []);
          google_model_value = strip (or_str (Form [] (form_google_model request)) []);
          google_edit_model_value = strip (or_str (Form [] (form_google_edit_model request)) []);
          openai_model_value = strip (or_str (Form [] (form_openai_model request)) []);
          files = form_files request
      in case resolve_output_pdf env output_path_raw of
           Inl exc \<Rightarrow> (fs, [], Raised exc)
         | Inr output_pdf \<Rightarrow>
             (case mkdir env fs (parent output_pdf) of
                (fs', Some exc) \<Rightarrow> (fs', [], Raised exc)
              | (fs', None) \<Rightarrow>
                  if text_content = [] then
                    (fs', [], json_error ''Conteudo de texto e obrigatorio.'' 400)
                  else if google_api_key = [] \<and> openai_api_key = [] then
                    (fs', [],
                     json_error
                       ''Pelo menos uma chave de API (Google Gemini ou OpenAI) e obrigatoria.''
                       400)
                  else
                    (case read_uploads env files of
                       Inl exc \<Rightarrow> (fs', [], Raised exc)
                     | Inr uploaded_text \<Rightarrow>
                         (let references = strip (join_nl uploaded_text);
                             reference_text = or_str references ''Nenhuma'';
                             google_model_name =
                               or_str google_model_value (default_google_model env);
                             google_edit_model_name =
                               or_str google_edit_model_value google_model_name;
                             openai_model_name = or_str openai_model_value ''gpt-4o-mini''
                         in (case init_model env google_api_key openai_api_key google_model_name
                                   google_edit_model_name openai_model_name of
                              (ev1, Inl response) \<Rightarrow> (fs', ev1, response)
                            | (ev1, Inr model) \<Rightarrow>
                                (case generation env model personality text_content
                                        reference_text of
                                   (ev2, Inl response) \<Rightarrow> (fs', ev1 @ ev2, response)
                                 | (ev2, Inr final_markdown) \<Rightarrow>
                                     (case render env output_pdf final_markdown of
                                        (ev3, response) \<Rightarrow>
                                          (fs', ev1 @ ev2 @ ev3, response))))))))\<close>


section \<open>Observations on runs and on paths\<close>

text \<open>Which provider an issued call belongs to, and which calls are the edit stage and the
  renderer.\<close>

fun is_gemini :: "event \<Rightarrow> bool" where
  "is_gemini (GenaiInit k m e) = True"
| "is_gemini (GenerateContent st m p) = True"
| "is_gemini _ = False"

fun is_openai :: "event \<Rightarrow> bool" where
  "is_openai (OpenAIInit k) = True"
| "is_openai (ChatCreate st m msgs) = True"
| "is_openai _ = False"

fun is_edit_call :: "event \<Rightarrow> bool" where
  "is_edit_call (GenerateContent st m p) = (st = Edit)"
| "is_edit_call (ChatCreate st m msgs) = (st = Edit)"
| "is_edit_call _ = False"

fun is_render_call :: "event \<Rightarrow> bool" where
  "is_render_call (MarkdownCall md) = True"
| "is_render_call (WritePdfCall html) = True"
| "is_render_call _ = False"

text \<open>A draft-stage call that the provider answered, and whose text is empty once
  extracted and stripped.\<close>

fun returned_empty_draft :: "env \<Rightarrow> event \<Rightarrow> bool" where
  "returned_empty_draft env (GenerateContent st m p) =
     (st = Draft \<and>
      (case generate_content env Draft m p of
         Inl exc \<Rightarrow> False
       | Inr response \<Rightarrow>
           (case response_text response of
              Inl exc \<Rightarrow> False
            | Inr t \<Rightarrow> strip t = [])))"
| "returned_empty_draft env (ChatCreate st m msgs) =
     (st = Draft \<and>
      (case chat_completions_create env Draft m msgs of
         Inl exc \<Rightarrow> False
       | Inr response \<Rightarrow> first_choice_stripped response = Inr []))"
| "returned_empty_draft env _ = False"


text \<open>The prompt a generation call carries: the prompt itself, or the system turn of the
  chat provider.\<close>

fun prompt_of :: "event \<Rightarrow> (stage \<times> string) option" where
  "prompt_of (GenerateContent st m p) = Some (st, p)"
| "prompt_of (ChatCreate st m msgs) =
     (case msgs of [] \<Rightarrow> None | msg # _ \<Rightarrow> Some (st, content msg))"
| "prompt_of _ = None"

text \<open>
  \<open>never_above d segs\<close>: walking the components \<open>segs\<close> from depth \<open>d\<close> below a
  directory, no \<^verbatim>\<open>..\<close> is met at depth 0. \<open>tilde_free\<close>: the first component does not
  start with a tilde.
\<close>

fun never_above :: "nat \<Rightarrow> string list \<Rightarrow> bool" where
  "never_above d [] = True"
| "never_above d (seg # segs) =
     (if seg = ''..'' then 0 < d \<and> never_above (d - 1) segs else never_above (Suc d) segs)"

definition tilde_free :: "string list \<Rightarrow> bool" where
  "tilde_free ps = (case ps of [] \<Rightarrow> True | first # _ \<Rightarrow> take 1 first \<noteq> ''~'')"


section \<open>Concrete environments and requests\<close>

text \<open>
  An environment in which every external call succeeds: the application lives in
  \<^verbatim>\<open>/srv/app\<close>, only the current user has a home directory, the page-document reader
  accepts the body \<^verbatim>\<open>%PDF-6\<close> (six pages, text on pages 2 and 5) and rejects any other,
  and each provider answers every stage with a fixed text.
\<close>

definition six_pages :: "(exn + string) list" where
  "six_pages = [Inr [], Inr ''page two'', Inr [], Inr [], Inr ''page five'', Inr []]"

definition env0 :: env where
  "env0 =
     \<lparr>base_dir = [''srv'', ''app''],
      default_google_model = ''gemini-2.5-pro'',
      home_of = (\<lambda>u. if u = [] then Some [''root''] else None),
      os_error = (\<lambda>fs p. None),
      pdf_reader = (\<lambda>b. if b = ''%PDF-6'' then Inr six_pages
                        else Inl (External ''invalid pdf header'')),
      decode_utf8_ignore = (\<lambda>b. b),
      genai_init = (\<lambda>k m e. None),
      generate_content =
        (\<lambda>st m p. Inr \<lparr>resp_text = Inr (Some ''# Titulo''), resp_candidates = None\<rparr>),
      openai_init = (\<lambda>k. None),
      chat_completions_create = (\<lambda>st m msgs. Inr \<lparr>choices = [Some ''# Titulo'']\<rparr>),
      markdown = (\<lambda>md. Inr (''<h1>'' @ md @ ''</h1>'')),
      write_pdf = (\<lambda>html. Inr (''%PDF-1.7 '' @ html))\<rparr>"




text \<open>The same as \<open>env0\<close>, on a system that refuses directory names longer than 255
  characters once their parent is there.\<close>

definition env_long_names :: env where
  "env_long_names =
     env0\<lparr>os_error :=
            (\<lambda>fs p. if 255 < length (name p) \<and> is_dir fs (parent p)
                    then Some (OSError ''[Errno 36] File name too long'') else None)\<rparr>"

text \<open>A file system with the root, the application directory and the device file
  \<^verbatim>\<open>/dev/null\<close>.\<close>

definition fs0 :: filesystem where
  "fs0 =
     \<lparr>fs_dirs = {[], [''srv''], [''srv'', ''app''], [''dev'']},
      fs_files = [[''dev'', ''null''] \<mapsto> []]\<rparr>"

definition request0 :: request where
  "request0 =
     \<lparr>form_text_content = Some ''Company history and mission statement'',
      form_personality = Some ''formal'',
      form_google_api_key = Some ''g-key'',
      form_openai_api_key = None,
      form_output_path = None,
      form_google_model = None,
      form_google_edit_model = None,
      form_openai_model = None,
      form_files = None\<rparr>"





text \<open>Four uploads: a page document of six pages with text on pages 2 and 5, a page
  document with an empty body, a file of an unsupported type, and a plain-text file.\<close>

definition uploads0 :: "upload list" where
  "uploads0 =
     [\<lparr>up_filename = Some ''Report.PDF'', up_body = ''%PDF-6''\<rparr>,
      \<lparr>up_filename = Some ''empty.pdf'', up_body = []\<rparr>,
      \<lparr>up_filename = Some ''notes.docx'', up_body = ''PK''\<rparr>,
      \<lparr>up_filename = Some ''notes.txt'', up_body = ''hello''\<rparr>]"

section \<open>Verification\<close>

subsection \<open>Strings and paths\<close>

lemma or_str_empty [simp]: "or_str a [] = a"
  by (simp add: or_str_def)

lemma strip_Nil [simp]: "strip [] = []"
  by (simp add: strip_def)

lemma foldl_resolve_plain:
  "''..'' \<notin> set segs \<Longrightarrow> foldl resolve_step stack segs = stack @ segs"
  by (induction segs arbitrary: stack) (auto simp: resolve_step_def)

lemma prefix_butlast_longer:
  assumes "prefix base stack" and "length base < length stack"
  shows "prefix base (butlast stack)"
proof -
  from assms obtain zs where zs: "stack = base @ zs" and "zs \<noteq> []"
    by (auto simp: prefix_def)
  then have "butlast stack = base @ butlast zs"
    by (simp add: butlast_append)
  then show ?thesis by simp
qed

lemma foldl_resolve_within:
  "prefix base stack \<Longrightarrow> never_above (length stack - length base) segs
   \<Longrightarrow> prefix base (foldl resolve_step stack segs)"
proof (induction segs arbitrary: stack)
  case Nil
  then show ?case by simp
next
  case (Cons seg segs)
  show ?case
  proof (cases "seg = ''..''")
    case True
    with Cons.prems have pos: "0 < length stack - length base"
      and rest: "never_above (length stack - length base - 1) segs"
      by simp_all
    from pos Cons.prems(1) have p: "prefix base (butlast stack)"
      by (intro prefix_butlast_longer) simp_all
    have "length (butlast stack) - length base = length stack - length base - 1"
      by simp
    with rest Cons.IH [OF p] True show ?thesis
      by (simp add: resolve_step_def)
  next
    case False
    from Cons.prems(1) have p: "prefix base (stack @ [seg])"
      by (rule prefix_prefix)
    from Cons.prems(1) have "length base \<le> length stack"
      by (simp add: prefix_length_le)
    then have "length (stack @ [seg]) - length base = Suc (length stack - length base)"
      by simp
    with False Cons.prems(2) Cons.IH [OF p] show ?thesis
      by (simp add: resolve_step_def)
  qed
qed

lemma expanduser_tilde_free:
  assumes "tilde_free (path_parts p)"
  shows "expanduser env p = Inr p"
proof (cases "path_parts p")
  case Nil
  then show ?thesis by (simp add: expanduser_def)
next
  case (Cons first rest)
  show ?thesis
  proof (cases first)
    case Nil
    with Cons show ?thesis by (simp add: expanduser_def)
  next
    case (Cons c user)
    with assms \<open>path_parts p = first # rest\<close> have "c \<noteq> CHR ''~''"
      by (simp add: tilde_free_def)
    with Cons \<open>path_parts p = first # rest\<close> show ?thesis
      by (simp add: expanduser_def)
  qed
qed

lemma split_on_subset:
  "w \<in> set (split_on d s) \<Longrightarrow> set w \<subseteq> set s"
proof (induction s arbitrary: w)
  case Nil
  then show ?case by simp
next
  case (Cons c cs)
  show ?case
  proof (cases "c = d")
    case True
    with Cons show ?thesis by auto
  next
    case False
    with Cons show ?thesis
      by (cases "split_on d cs") (auto, blast+)
  qed
qed

lemma path_parts_no_nul:
  assumes "\<not> has_nul s"
  shows "\<not> list_ex has_nul (path_parts (Path s))"
  using assms split_on_subset [of _ "CHR ''/''" s]
  by (auto simp: Path_def has_nul_def list_ex_iff)

subsection \<open>The shape of a run\<close>

text \<open>Every run of the handler ends in one of eight ways; the fields of the form appear
  as the handler normalises them in lines 150 to 157.\<close>

lemma generate_ebook_run:
  fixes env fs request
  defines "txt \<equiv> strip (Form [] (form_text_content request))"
    and "pers \<equiv>
      or_str (strip (or_str (Form ''neutra'' (form_personality request)) ''neutra'')) ''neutra''"
    and "gk \<equiv> strip (Form [] (form_google_api_key request))"
    and "ok \<equiv> strip (Form [] (form_openai_api_key request))"
    and "raw \<equiv> strip (Form [] (form_output_path request))"
    and "gm \<equiv> or_str (strip (Form [] (form_google_model request))) (default_google_model env)"
    and "gem \<equiv> or_str (strip (Form [] (form_google_edit_model request)))
      (or_str (strip (Form [] (form_google_model request))) (default_google_model env))"
    and "om \<equiv> or_str (strip (Form [] (form_openai_model request))) ''gpt-4o-mini''"
  assumes run: "generate_ebook env fs request = (fs', trace, response)"
  obtains
    (resolve_raised) exc where
      "resolve_output_pdf env raw = Inl exc" "fs' = fs" "trace = []" "response = Raised exc"
  | (mkdir_raised) output_pdf exc where
      "resolve_output_pdf env raw = Inr output_pdf" "mkdir env fs (parent output_pdf) = (fs', Some exc)"
      "trace = []" "response = Raised exc"
  | (no_text) output_pdf where
      "resolve_output_pdf env raw = Inr output_pdf" "mkdir env fs (parent output_pdf) = (fs', None)"
      "txt = []" "trace = []" "response = json_error ''Conteudo de texto e obrigatorio.'' 400"
  | (no_key) output_pdf where
      "resolve_output_pdf env raw = Inr output_pdf" "mkdir env fs (parent output_pdf) = (fs', None)"
      "txt \<noteq> []" "gk = []" "ok = []" "trace = []"
      "response = json_error
         ''Pelo menos uma chave de API (Google Gemini ou OpenAI) e obrigatoria.'' 400"
  | (upload_raised) output_pdf exc where
      "resolve_output_pdf env raw = Inr output_pdf" "mkdir env fs (parent output_pdf) = (fs', None)"
      "txt \<noteq> []" "\<not> (gk = [] \<and> ok = [])"
      "read_uploads env (form_files request) = Inl exc" "trace = []" "response = Raised exc"
  | (init_failed) output_pdf texts where
      "resolve_output_pdf env raw = Inr output_pdf" "mkdir env fs (parent output_pdf) = (fs', None)"
      "txt \<noteq> []" "\<not> (gk = [] \<and> ok = [])"
      "read_uploads env (form_files request) = Inr texts"
      "init_model env gk ok gm gem om = (trace, Inl response)"
  | (generation_failed) output_pdf texts ev1 model ev2 where
      "resolve_output_pdf env raw = Inr output_pdf" "mkdir env fs (parent output_pdf) = (fs', None)"
      "txt \<noteq> []" "\<not> (gk = [] \<and> ok = [])"
      "read_uploads env (form_files request) = Inr texts"
      "init_model env gk ok gm gem om = (ev1, Inr model)"
      "generation env model pers txt (or_str (strip (join_nl texts)) ''Nenhuma'') =
         (ev2, Inl response)"
      "trace = ev1 @ ev2"
  | (rendered) output_pdf texts ev1 model ev2 final_markdown ev3 where
      "resolve_output_pdf env raw = Inr output_pdf" "mkdir env fs (parent output_pdf) = (fs', None)"
      "txt \<noteq> []" "\<not> (gk = [] \<and> ok = [])"
      "read_uploads env (form_files request) = Inr texts"
      "init_model env gk ok gm gem om = (ev1, Inr model)"
      "generation env model pers txt (or_str (strip (join_nl texts)) ''Nenhuma'') =
         (ev2, Inr final_markdown)"
      "render env output_pdf final_markdown = (ev3, response)"
      "trace = ev1 @ ev2 @ ev3"
proof (cases "resolve_output_pdf env raw")
  case (Inl exc)
  with run have "fs' = fs \<and> trace = [] \<and> response = Raised exc"
    by (auto simp: generate_ebook_def Let_def raw_def)
  with Inl show thesis by (intro resolve_raised) simp_all
next
  case (Inr output_pdf)
  note res = this
  obtain fs1 raised where mk0: "mkdir env fs (parent output_pdf) = (fs1, raised)"
    by (cases "mkdir env fs (parent output_pdf)")
  show thesis
  proof (cases raised)
    case (Some exc)
    with run res mk0 have "fs' = fs1 \<and> trace = [] \<and> response = Raised exc"
      by (auto simp: generate_ebook_def Let_def raw_def)
    with res mk0 Some show thesis by (intro mkdir_raised) simp_all
  next
    case None
    with mk0 have mk: "mkdir env fs (parent output_pdf) = (fs1, None)" by simp
    show thesis
    proof (cases "txt = []")
      case True
      with run res mk have "fs' = fs1 \<and> trace = [] \<and>
          response = json_error ''Conteudo de texto e obrigatorio.'' 400"
        by (auto simp: generate_ebook_def Let_def raw_def txt_def)
      with res mk True show thesis by (intro no_text) simp_all
    next
      case False
      note nonblank = this
      show thesis
      proof (cases "gk = [] \<and> ok = []")
        case True
        with run res mk nonblank have "fs' = fs1 \<and> trace = [] \<and>
            response = json_error
              ''Pelo menos uma chave de API (Google Gemini ou OpenAI) e obrigatoria.'' 400"
          by (auto simp: generate_ebook_def Let_def raw_def txt_def gk_def ok_def)
        with res mk nonblank True show thesis by (intro no_key) simp_all
      next
        case False
        note keys = this
        show thesis
        proof (cases "read_uploads env (form_files request)")
          case (Inl exc)
          with run res mk nonblank keys have "fs' = fs1 \<and> trace = [] \<and> response = Raised exc"
            by (auto simp: generate_ebook_def Let_def raw_def txt_def gk_def ok_def)
          with res mk nonblank keys Inl show thesis by (intro upload_raised) simp_all
        next
          case (Inr texts)
          note up = this
          obtain ev1 r1 where init: "init_model env gk ok gm gem om = (ev1, r1)"
            by (cases "init_model env gk ok gm gem om")
          show thesis
          proof (cases r1)
            case (Inl resp)
            with run res mk nonblank keys up init have "fs' = fs1 \<and> trace = ev1 \<and> response = resp"
              by (auto simp: generate_ebook_def Let_def raw_def txt_def gk_def ok_def gm_def
                  gem_def om_def)
            with res mk nonblank keys up init Inl show thesis by (intro init_failed) simp_all
          next
            case (Inr model)
            note cl = this
            let ?refs = "or_str (strip (join_nl texts)) ''Nenhuma''"
            obtain ev2 r2 where gen: "generation env model pers txt ?refs = (ev2, r2)"
              by (cases "generation env model pers txt ?refs")
            show thesis
            proof (cases r2)
              case (Inl resp)
              with run res mk nonblank keys up init cl gen
              have "fs' = fs1 \<and> trace = ev1 @ ev2 \<and> response = resp"
                by (auto simp: generate_ebook_def Let_def raw_def txt_def gk_def ok_def gm_def
                    gem_def om_def pers_def)
              with res mk nonblank keys up init cl gen Inl show thesis
                by (intro generation_failed) simp_all
            next
              case (Inr final_markdown)
              obtain ev3 r3 where ren: "render env output_pdf final_markdown = (ev3, r3)"
                by (cases "render env output_pdf final_markdown")
              with run res mk nonblank keys up init cl gen Inr
              have "fs' = fs1 \<and> trace = ev1 @ ev2 @ ev3 \<and> response = r3"
                by (auto simp: generate_ebook_def Let_def raw_def txt_def gk_def ok_def gm_def
                    gem_def om_def pers_def)
              with res mk nonblank keys up init cl gen Inr ren show thesis
                by (intro rendered) simp_all
            qed
          qed
        qed
      qed
    qed
  qed
qed

subsection \<open>Creating directories\<close>

lemma prefixes_butlast:
  "p \<noteq> [] \<Longrightarrow> prefixes p = prefixes (butlast p) @ [p]"
  using prefixes_snoc [of "butlast p" "last p"] by simp

lemma os_mkdir_result:
  assumes "os_mkdir env fs p = Inr fs'"
  shows "p \<noteq> [] \<and> is_dir fs (butlast p) \<and> fs' = fs\<lparr>fs_dirs := insert p (fs_dirs fs)\<rparr>"
proof -
  from assms have *: "is_dir fs (butlast p)" "p \<notin> fs_dirs fs"
    "fs' = fs\<lparr>fs_dirs := insert p (fs_dirs fs)\<rparr>"
    by (auto simp: os_mkdir_def split: option.splits if_splits)
  from * have "p \<noteq> []" by (auto simp: is_dir_def)
  with * show ?thesis by simp
qed

lemma os_mkdir_effect:
  assumes "os_mkdir env fs p = Inr fs'"
  shows "is_dir fs' p \<and> fs_dirs fs' = fs_dirs fs \<union> set (prefixes p) \<and>
         fs_files fs' = fs_files fs"
proof -
  from os_mkdir_result [OF assms] have ne: "p \<noteq> []" and par: "is_dir fs (butlast p)"
    and fs': "fs' = fs\<lparr>fs_dirs := insert p (fs_dirs fs)\<rparr>"
    by simp_all
  from par have sub: "set (prefixes (butlast p)) \<subseteq> fs_dirs fs"
    by (auto simp: is_dir_def list_all_iff)
  with ne fs' show ?thesis
    by (auto simp: is_dir_def list_all_iff prefixes_butlast)
qed

lemma mkdir_once_effect:
  assumes "mkdir_once env fs p = (fs', None)"
  shows "is_dir fs' p \<and> fs_dirs fs' = fs_dirs fs \<union> set (prefixes p) \<and>
         fs_files fs' = fs_files fs"
proof (cases "os_mkdir env fs p")
  case (Inr fs1)
  with assms have "fs' = fs1" by (simp add: mkdir_once_def)
  with os_mkdir_effect [OF Inr] show ?thesis by simp
next
  case (Inl exc)
  with assms have "fs' = fs" and "is_dir fs p"
    by (auto simp: mkdir_once_def split: if_splits)
  then show ?thesis
    by (auto simp: is_dir_def list_all_iff)
qed

lemma mkdir_effect:
  "mkdir env fs p = (fs', None) \<Longrightarrow>
   is_dir fs' p \<and> fs_dirs fs' = fs_dirs fs \<union> set (prefixes p) \<and> fs_files fs' = fs_files fs"
proof (induction env fs p arbitrary: fs' rule: mkdir.induct)
  case (1 env fs p)
  show ?case
  proof (cases "os_mkdir env fs p")
    case (Inr fs1)
    with "1.prems" have "fs' = fs1" by (simp add: mkdir.simps [of env fs p])
    with os_mkdir_effect [OF Inr] show ?thesis by simp
  next
    case (Inl exc)
    show ?thesis
    proof (cases "exc = FileNotFoundError")
      case False
      with Inl "1.prems" have "fs' = fs" and "is_dir fs p"
        by (auto simp: mkdir.simps [of env fs p] split: if_splits)
      then show ?thesis
        by (auto simp: is_dir_def list_all_iff)
    next
      case True
      with Inl "1.prems" have ne: "p \<noteq> []"
        by (auto simp: mkdir.simps [of env fs p] split: if_splits)
      obtain fs1 raised where par: "mkdir env fs (butlast p) = (fs1, raised)"
        by (cases "mkdir env fs (butlast p)")
      with Inl True ne "1.prems" have none: "raised = None"
        and once: "mkdir_once env fs1 p = (fs', None)"
        by (auto simp: mkdir.simps [of env fs p] split: option.splits)
      from "1.IH" [OF Inl True ne] par none
      have IH: "fs_dirs fs1 = fs_dirs fs \<union> set (prefixes (butlast p))"
        "fs_files fs1 = fs_files fs"
        by simp_all
      from mkdir_once_effect [OF once] IH ne show ?thesis
        by (auto simp: prefixes_butlast)
    qed
  qed
qed

text \<open>Whatever \<^verbatim>\<open>mkdir\<close> ends with, it writes no file.\<close>

lemma mkdir_once_files:
  "fs_files (fst (mkdir_once env fs p)) = fs_files fs"
  by (auto simp: mkdir_once_def os_mkdir_def split: sum.splits option.splits if_splits)

lemma mkdir_files:
  "fs_files (fst (mkdir env fs p)) = fs_files fs"
proof (induction env fs p rule: mkdir.induct)
  case (1 env fs p)
  show ?case
  proof (cases "os_mkdir env fs p")
    case (Inr fs1)
    with os_mkdir_effect [OF Inr] show ?thesis by (simp add: mkdir.simps [of env fs p])
  next
    case (Inl exc)
    show ?thesis
    proof (cases "exc = FileNotFoundError \<and> p \<noteq> []")
      case False
      with Inl show ?thesis by (auto simp: mkdir.simps [of env fs p])
    next
      case True
      obtain fs1 raised where par: "mkdir env fs (butlast p) = (fs1, raised)"
        by (cases "mkdir env fs (butlast p)")
      from "1.IH" [OF Inl] True par have "fs_files fs1 = fs_files fs" by simp
      with Inl True par mkdir_once_files [of env fs1 p] show ?thesis
        by (cases raised) (simp_all add: mkdir.simps [of env fs p])
    qed
  qed
qed

text \<open>On a system that refuses long names, creating \<^verbatim>\<open>/srv/app/new/ddd...d\<close> (300
  times \<^verbatim>\<open>d\<close>) raises and leaves \<^verbatim>\<open>/srv/app/new\<close> created.\<close>

lemma mkdir_leaves_created_ancestors:
  "mkdir env_long_names fs0 [''srv'', ''app'', ''new'', replicate 300 CHR ''d''] =
     (fs0\<lparr>fs_dirs := insert [''srv'', ''app'', ''new''] (fs_dirs fs0)\<rparr>,
      Some (OSError ''[Errno 36] File name too long''))"
  by (simp add: mkdir.simps [of _ _ "[''srv'', ''app'', ''new'', replicate 300 CHR ''d'']"]
      mkdir.simps [of _ _ "[''srv'', ''app'', ''new'']"] mkdir_once_def os_mkdir_def
      env_long_names_def env0_def fs0_def is_dir_def name_def parent_def)

subsection \<open>The calls each phase issues\<close>

lemma init_model_events:
  "init_model env gk ok gm gem om = (ev, r) \<Longrightarrow>
   \<forall>e \<in> set ev. \<not> is_edit_call e \<and> \<not> is_render_call e \<and> \<not> returned_empty_draft env e \<and>
      prompt_of e = None \<and> (gk \<noteq> [] \<longrightarrow> \<not> is_openai e) \<and> (gk = [] \<longrightarrow> \<not> is_gemini e)"
  by (auto simp: init_model_def split: option.splits if_splits)

lemma init_model_selects:
  "\<not> (gk = [] \<and> ok = []) \<Longrightarrow>
   fst (init_model env gk ok gm gem om) =
     [if gk \<noteq> [] then GenaiInit gk gm gem else OpenAIInit ok]"
  by (auto simp: init_model_def split: option.splits)

lemma init_model_client:
  "init_model env gk ok gm gem om = (ev, Inr model) \<Longrightarrow>
   model = (if gk \<noteq> [] then Gemini gm gem else OpenAI om)"
  by (auto simp: init_model_def split: option.splits if_splits)

lemma init_model_failure:
  "init_model env gk ok gm gem om = (ev, Inl response) \<Longrightarrow>
   \<exists>msg code. response = json_error msg code"
  by (auto simp: init_model_def split: option.splits if_splits)

lemma gemini_generation_events:
  "gemini_generation env cm em pers txt refs = (ev, r) \<Longrightarrow>
   \<forall>e \<in> set ev. \<not> is_openai e \<and> \<not> is_render_call e"
  by (auto simp: gemini_generation_def Let_def split: sum.splits if_splits)

lemma openai_generation_events:
  "openai_generation env om pers txt refs = (ev, r) \<Longrightarrow>
   \<forall>e \<in> set ev. \<not> is_gemini e \<and> \<not> is_render_call e"
  by (auto simp: openai_generation_def Let_def split: sum.splits if_splits)

lemma generation_events:
  assumes gen: "generation env model pers txt refs = (ev, r)"
  shows "\<forall>e \<in> set ev. \<not> is_render_call e \<and>
           (case model of Gemini cm em \<Rightarrow> \<not> is_openai e | OpenAI om \<Rightarrow> \<not> is_gemini e)"
proof (cases model)
  case (Gemini cm em)
  with gen have "gemini_generation env cm em pers txt refs = (ev, r)"
    by (simp add: generation_def)
  from gemini_generation_events [OF this] Gemini show ?thesis by simp
next
  case (OpenAI om)
  with gen have "openai_generation env om pers txt refs = (ev, r)"
    by (simp add: generation_def)
  from openai_generation_events [OF this] OpenAI show ?thesis by simp
qed

lemma generation_failure:
  "generation env model pers txt refs = (ev, Inl response) \<Longrightarrow>
   \<exists>msg. response = json_error msg 500"
  by (cases model)
    (auto simp: generation_def gemini_generation_def openai_generation_def Let_def
      split: sum.splits if_splits)

lemma render_events:
  "render env output_pdf md = (ev, r) \<Longrightarrow>
   \<forall>e \<in> set ev. is_render_call e \<and> \<not> is_gemini e \<and> \<not> is_openai e \<and> \<not> is_edit_call e
      \<and> \<not> returned_empty_draft env e \<and> prompt_of e = None"
  by (auto simp: render_def split: sum.splits)

lemma json_error_neq [simp]:
  "json_error msg code \<noteq> StreamingResponse body media_type headers"
  "json_error msg code \<noteq> Raised exc"
  "StreamingResponse body media_type headers \<noteq> json_error msg code"
  "Raised exc \<noteq> json_error msg code"
  by (simp_all add: json_error_def)

lemma render_streaming:
  assumes "render env output_pdf md = (ev, StreamingResponse body media_type headers)"
  shows \<open>\<exists>html. markdown env md = Inr html \<and> write_pdf env html = Inr body \<and>
           ev = [MarkdownCall md, WritePdfCall html] \<and> media_type = ''application/pdf'' \<and>
           headers = [(''Content-Disposition'',
                       ''attachment; filename="'' @ name output_pdf @ ''"'')]\<close>
  using assms by (auto simp: render_def split: sum.splits)

subsection \<open>The resolved output path\<close>

text \<open>
  C1, as amended. Let the base directory be a resolved path (no \<^verbatim>\<open>..\<close> component, no NUL
  character). Take an override that is not empty, is relative, whose first component
  (once the empty components and \<^verbatim>\<open>.\<close> are dropped, as the path constructor does) does
  not start with a tilde, and whose \<^verbatim>\<open>..\<close> components never climb above the base
  directory. On a file system without symbolic links, whenever the handler resolves it,
  the resolved path lies inside the base directory; the handler does resolve it when
  it holds no NUL character; and in a run that ends with the document, the file name of
  the attachment is the name of that resolved path.
\<close>

theorem relative_override_within_base:
  assumes base: "''..'' \<notin> set (base_dir env)"
    and base_nul: "\<not> list_ex has_nul (base_dir env)"
    and nonempty: "output_path_raw \<noteq> []"
    and relative: "\<not> is_absolute (Path output_path_raw)"
    and tilde: "tilde_free (path_parts (Path output_path_raw))"
    and climb: "never_above 0 (path_parts (Path output_path_raw))"
  shows "(\<forall>output_pdf. resolve_output_pdf env output_path_raw = Inr output_pdf \<longrightarrow>
            prefix (base_dir env) output_pdf) \<and>
         (\<not> has_nul output_path_raw \<longrightarrow>
            (\<exists>output_pdf. resolve_output_pdf env output_path_raw = Inr output_pdf)) \<and>
         (\<forall>fs request fs' trace body media_type headers.
            strip (Form [] (form_output_path request)) = output_path_raw \<and>
            generate_ebook env fs request =
              (fs', trace, StreamingResponse body media_type headers) \<longrightarrow>
            (\<exists>output_pdf.
               resolve_output_pdf env output_path_raw = Inr output_pdf \<and>
               prefix (base_dir env) output_pdf \<and>
               headers = [(''Content-Disposition'',
                           ''attachment; filename='' @ [CHR 0x22] @ name output_pdf @
                           [CHR 0x22])]))"
proof -
  let ?segs = "path_parts (Path output_path_raw)"
  have res: "resolve_output_pdf env output_path_raw = resolve (base_dir env @ ?segs)"
    using nonempty relative expanduser_tilde_free [OF tilde, of env]
    by (simp add: resolve_output_pdf_def)
  have fold: "foldl resolve_step [] (base_dir env) = base_dir env"
    using foldl_resolve_plain [OF base, of "[]"] by simp
  have inside: "prefix (base_dir env) (foldl resolve_step (base_dir env) ?segs)"
    using climb by (intro foldl_resolve_within) simp_all
  have safe: "\<forall>output_pdf. resolve_output_pdf env output_path_raw = Inr output_pdf \<longrightarrow>
      prefix (base_dir env) output_pdf"
    using inside by (auto simp: res resolve_def fold split: if_splits)
  have returns: "\<exists>output_pdf. resolve_output_pdf env output_path_raw = Inr output_pdf"
    if "\<not> has_nul output_path_raw"
    using base_nul path_parts_no_nul [OF that] by (simp add: res resolve_def)
  have header: "\<exists>output_pdf.
      resolve_output_pdf env output_path_raw = Inr output_pdf \<and>
      prefix (base_dir env) output_pdf \<and>
      headers = [(''Content-Disposition'',
                  ''attachment; filename='' @ [CHR 0x22] @ name output_pdf @ [CHR 0x22])]"
    if raw: "strip (Form [] (form_output_path request)) = output_path_raw"
      and run: "generate_ebook env fs request =
        (fs', trace, StreamingResponse body media_type headers)"
    for fs request fs' trace body media_type headers
    using run
  proof (cases rule: generate_ebook_run)
    case (init_failed output_pdf texts)
    from init_model_failure [OF init_failed(6)] show ?thesis by auto
  next
    case (generation_failed output_pdf texts ev1 model ev2)
    from generation_failure [OF generation_failed(7)] show ?thesis by auto
  next
    case (rendered output_pdf texts ev1 model ev2 final_markdown ev3)
    from render_streaming [OF rendered(8)] rendered(1) raw safe show ?thesis
      by auto
  qed simp_all
  from safe returns header show ?thesis by blast
qed

theorem relative_override_within_base_witness:
  "''..'' \<notin> set (base_dir env0) \<and> \<not> list_ex has_nul (base_dir env0) \<and>
   ''a/../b/./c.pdf'' \<noteq> [] \<and>
   \<not> is_absolute (Path ''a/../b/./c.pdf'') \<and>
   tilde_free (path_parts (Path ''a/../b/./c.pdf'')) \<and>
   never_above 0 (path_parts (Path ''a/../b/./c.pdf'')) \<and>
   \<not> has_nul ''a/../b/./c.pdf'' \<and>
   resolve_output_pdf env0 ''a/../b/./c.pdf'' = Inr [''srv'', ''app'', ''b'', ''c.pdf''] \<and>
   prefix (base_dir env0) [''srv'', ''app'', ''b'', ''c.pdf'']"
proof -
  have 1: "''..'' \<notin> set (base_dir env0)" by (simp add: env0_def)
  have b1: "\<not> list_ex has_nul (base_dir env0)" by (simp add: env0_def has_nul_def)
  have 2: "''a/../b/./c.pdf'' \<noteq> []" by simp
  have p: "Path ''a/../b/./c.pdf'' =
      \<lparr>is_absolute = False, path_parts = [''a'', ''..'', ''b'', ''c.pdf'']\<rparr>"
    by (simp add: Path_def)
  have 3: "\<not> is_absolute (Path ''a/../b/./c.pdf'')" by (simp add: p)
  have 4: "tilde_free (path_parts (Path ''a/../b/./c.pdf''))" by (simp add: p tilde_free_def)
  have 5: "never_above 0 (path_parts (Path ''a/../b/./c.pdf''))" by (simp add: p)
  have 6: "\<not> has_nul ''a/../b/./c.pdf''" by (simp add: has_nul_def)
  have 7: "resolve_output_pdf env0 ''a/../b/./c.pdf'' = Inr [''srv'', ''app'', ''b'', ''c.pdf'']"
    by (simp add: resolve_output_pdf_def p expanduser_def env0_def resolve_def resolve_step_def
        has_nul_def)
  from relative_override_within_base [OF 1 b1 2 3 4 5] 1 b1 2 3 4 5 6 7 show ?thesis
    by simp
qed

text \<open>
  C1 as stated fails: with the application in \<^verbatim>\<open>/srv/app\<close>, the relative override
  \<^verbatim>\<open>../../etc/ebook.pdf\<close> resolves to \<^verbatim>\<open>/etc/ebook.pdf\<close>, outside the base directory.
\<close>

theorem parent_segments_escape_base:
  "''../../etc/ebook.pdf'' \<noteq> [] \<and> \<not> is_absolute (Path ''../../etc/ebook.pdf'') \<and>
   resolve_output_pdf env0 ''../../etc/ebook.pdf'' = Inr [''etc'', ''ebook.pdf''] \<and>
   \<not> prefix (base_dir env0) [''etc'', ''ebook.pdf'']"
  by (simp add: resolve_output_pdf_def Path_def expanduser_def env0_def resolve_def
      resolve_step_def has_nul_def)

text \<open>Two overrides outside the hypotheses above. A NUL character makes
  \<^verbatim>\<open>resolve\<close> raise. And \<^verbatim>\<open>./~/x.pdf\<close>, which does not start with a tilde as a
  string, has the tilde as its first component once \<^verbatim>\<open>.\<close> is dropped: it resolves
  into the home directory.\<close>

lemma nul_byte_raises:
  "resolve_output_pdf env0 [CHR ''a'', CHR 0x00, CHR ''b'', CHR ''/'', CHR ''x''] = Inl ValueError"
  by (simp add: resolve_output_pdf_def Path_def expanduser_def env0_def resolve_def has_nul_def)

lemma dot_tilde_expands:
  "resolve_output_pdf env0 ''./~/x.pdf'' = Inr [''root'', ''x.pdf'']"
  by (simp add: resolve_output_pdf_def Path_def expanduser_def env0_def resolve_def
      resolve_step_def has_nul_def)

subsection \<open>An empty draft\<close>





subsection \<open>Runs in the concrete environments\<close>

lemmas eval_defs =
  generate_ebook_def Let_def Form_def strip_def is_space_def or_str_def
  resolve_output_pdf_def DEFAULT_OUTPUT_PDF_def Path_def expanduser_def resolve_def
  resolve_step_def has_nul_def parent_def name_def mkdir_once_def os_mkdir_def is_dir_def
  read_uploads_def extract_text_from_uploads_def
  lower_def lower_char_def endswith_def init_model_def generation_def gemini_generation_def
  gemini_call_def openai_generation_def openai_call_def first_choice_stripped_def
  response_text_def response_text_fallback_def render_def

lemma mkdir_app_dir:
  "os_error env = (\<lambda>fs p. None) \<Longrightarrow> mkdir env fs0 [''srv'', ''app''] = (fs0, None)"
  by (simp add: mkdir.simps [of _ _ "[''srv'', ''app'']"] os_mkdir_def is_dir_def fs0_def)


lemma run_env0:
  \<open>generate_ebook env0 fs0 request0 =
     (fs0,
      [GenaiInit ''g-key'' ''gemini-2.5-pro'' ''gemini-2.5-pro'',
       GenerateContent Analysis ''gemini-2.5-pro''
         (analysis_prompt ''Company history and mission statement'' ''Nenhuma''),
       GenerateContent Draft ''gemini-2.5-pro''
         (content_prompt_template_format ''formal'' ''# Titulo''
            ''Company history and mission statement'' ''Nenhuma''),
       GenerateContent Edit ''gemini-2.5-pro'' (edit_prompt_format ''# Titulo''),
       MarkdownCall ''# Titulo'', WritePdfCall ''<h1># Titulo</h1>''],
      StreamingResponse ''%PDF-1.7 <h1># Titulo</h1>'' ''application/pdf''
        [(''Content-Disposition'', ''attachment; filename="ebook_gerado.pdf"'')])\<close>
  by (simp add: eval_defs request0_def env0_def mkdir_app_dir)


subsection \<open>Exceptions that leave the handler\<close>

text \<open>
  C2: a request with a text, a credential and one upload named \<^verbatim>\<open>notes.pdf\<close> that the
  page-document reader rejects. The exception of the reader leaves the handler: no JSON
  error is produced.
\<close>

theorem malformed_pdf_raises:
  "snd (generate_ebook env0 fs0
      (request0\<lparr>form_files := Some [\<lparr>up_filename = Some ''notes.pdf'', up_body = ''not a pdf''\<rparr>]\<rparr>))
   = ([], Raised (External ''invalid pdf header''))"
  by (simp add: eval_defs request0_def env0_def mkdir_app_dir)

text \<open>
  C7: a request with a blank text and the output path \<^verbatim>\<open>/dev/null/x.pdf\<close>. The claim
  asks for the 400 validation error; the handler ends with the exception that creating
  the directory \<^verbatim>\<open>/dev/null\<close> raises at line 173, which comes before the check of the
  text at line 175 and is not guarded.
\<close>

theorem empty_text_crash:
  "strip (Form [] (form_text_content
      (request0\<lparr>form_text_content := Some ''  '',
                form_output_path := Some ''/dev/null/x.pdf''\<rparr>))) = [] \<and>
   generate_ebook env0 fs0
      (request0\<lparr>form_text_content := Some ''  '', form_output_path := Some ''/dev/null/x.pdf''\<rparr>)
     = (fs0, [], Raised FileExistsError)"
  by (simp add: eval_defs request0_def env0_def fs0_def
      mkdir.simps [of _ _ "[''dev'', ''null'']"])

text \<open>
  What the handler does with a blank text in general: it issues no provider and no
  renderer call in any case, and it answers with the 400 error whenever lines 164 to 173
  return.
\<close>

lemma empty_text_rejected:
  assumes "strip (Form [] (form_text_content request)) = []"
  shows "fst (snd (generate_ebook env fs request)) = [] \<and>
         (\<forall>output_pdf fs'.
            resolve_output_pdf env (strip (Form [] (form_output_path request))) = Inr output_pdf \<and>
            mkdir env fs (parent output_pdf) = (fs', None) \<longrightarrow>
            generate_ebook env fs request =
              (fs', [], json_error ''Conteudo de texto e obrigatorio.'' 400))"
  using assms
  by (auto simp: generate_ebook_def Let_def split: sum.splits prod.splits option.splits)

subsection \<open>The output directory\<close>

text \<open>
  C10, as amended. Whenever lines 164 to 173 return, that is, the output path is resolved
  and the creation of its parent directory does not raise, the file system the handler
  leaves is the one that creation gives: the parent directory of the resolved output path
  is a directory in it, and no file has changed. This holds whatever the request is, so
  also when the handler then rejects it: with the 400 error for a blank text, and with
  the 400 error for no credential.
\<close>

theorem parent_directory_created_first:
  assumes resolved:
      "resolve_output_pdf env (strip (Form [] (form_output_path request))) = Inr output_pdf"
    and created: "mkdir env fs (parent output_pdf) = (fs', None)"
  shows "fst (generate_ebook env fs request) = fs' \<and>
         is_dir fs' (parent output_pdf) \<and>
         fs_dirs fs' = fs_dirs fs \<union> set (prefixes (parent output_pdf)) \<and>
         fs_files fs' = fs_files fs \<and>
         (strip (Form [] (form_text_content request)) = [] \<longrightarrow>
            generate_ebook env fs request =
              (fs', [], json_error ''Conteudo de texto e obrigatorio.'' 400)) \<and>
         (strip (Form [] (form_text_content request)) \<noteq> [] \<and>
          strip (Form [] (form_google_api_key request)) = [] \<and>
          strip (Form [] (form_openai_api_key request)) = [] \<longrightarrow>
            generate_ebook env fs request =
              (fs', [],
               json_error
                 ''Pelo menos uma chave de API (Google Gemini ou OpenAI) e obrigatoria.''
                 400))"
proof -
  obtain fs1 trace response where run: "generate_ebook env fs request = (fs1, trace, response)"
    by (cases "generate_ebook env fs request")
  from run resolved created have "fs1 = fs'"
    by (cases rule: generate_ebook_run) simp_all
  moreover from resolved created have
    "strip (Form [] (form_text_content request)) = [] \<longrightarrow>
       generate_ebook env fs request =
         (fs', [], json_error ''Conteudo de texto e obrigatorio.'' 400)"
    "strip (Form [] (form_text_content request)) \<noteq> [] \<and>
     strip (Form [] (form_google_api_key request)) = [] \<and>
     strip (Form [] (form_openai_api_key request)) = [] \<longrightarrow>
       generate_ebook env fs request =
         (fs', [],
          json_error
            ''Pelo menos uma chave de API (Google Gemini ou OpenAI) e obrigatoria.'' 400)"
    by (simp_all add: generate_ebook_def Let_def)
  ultimately show ?thesis
    using run mkdir_effect [OF created] by simp
qed

theorem parent_directory_created_first_witness:
  "resolve_output_pdf env0
     (strip (Form [] (form_output_path
        (request0\<lparr>form_text_content := None, form_output_path := Some ''out/book.pdf''\<rparr>)))) =
     Inr [''srv'', ''app'', ''out'', ''book.pdf''] \<and>
   mkdir env0 fs0 (parent [''srv'', ''app'', ''out'', ''book.pdf'']) =
     (fs0\<lparr>fs_dirs := insert [''srv'', ''app'', ''out''] (fs_dirs fs0)\<rparr>, None) \<and>
   generate_ebook env0 fs0
     (request0\<lparr>form_text_content := None, form_output_path := Some ''out/book.pdf''\<rparr>) =
     (fs0\<lparr>fs_dirs := insert [''srv'', ''app'', ''out''] (fs_dirs fs0)\<rparr>, [],
      json_error ''Conteudo de texto e obrigatorio.'' 400) \<and>
   is_dir (fs0\<lparr>fs_dirs := insert [''srv'', ''app'', ''out''] (fs_dirs fs0)\<rparr>)
     [''srv'', ''app'', ''out'']"
proof -
  let ?request = "request0\<lparr>form_text_content := None, form_output_path := Some ''out/book.pdf''\<rparr>"
  let ?fs = "fs0\<lparr>fs_dirs := insert [''srv'', ''app'', ''out''] (fs_dirs fs0)\<rparr>"
  have res: "resolve_output_pdf env0 (strip (Form [] (form_output_path ?request))) =
      Inr [''srv'', ''app'', ''out'', ''book.pdf'']"
    by (simp add: Form_def strip_def is_space_def resolve_output_pdf_def Path_def
        expanduser_def resolve_def resolve_step_def has_nul_def env0_def)
  have mk: "mkdir env0 fs0 (parent [''srv'', ''app'', ''out'', ''book.pdf'']) = (?fs, None)"
    by (simp add: parent_def mkdir.simps [of _ _ "[''srv'', ''app'', ''out'']"] os_mkdir_def
        is_dir_def env0_def fs0_def)
  have blank: "strip (Form [] (form_text_content ?request)) = []"
    by (simp add: Form_def)
  from parent_directory_created_first [OF res mk] blank res mk show ?thesis
    by (simp add: parent_def)
qed

text \<open>
  C10 as stated fails: for the output path \<^verbatim>\<open>~nobody/x.pdf\<close>, with no home directory
  known for that user, \<^verbatim>\<open>expanduser\<close> raises at line 165 and no directory is created.
\<close>

theorem unknown_home_no_directory:
  "generate_ebook env0 fs0 (request0\<lparr>form_output_path := Some ''~nobody/x.pdf''\<rparr>)
     = (fs0, [], Raised RuntimeError)"
  by (simp add: generate_ebook_def Let_def Form_def request0_def strip_def is_space_def
      resolve_output_pdf_def Path_def expanduser_def has_nul_def env0_def)

subsection \<open>Provider selection\<close>


text \<open>
  What the selection does otherwise. For a request with a text and at least one
  credential, the selection step constructs exactly one client, that of the Gemini models
  when the Google credential is there (whatever the OpenAI credential is) and that of
  the OpenAI client otherwise; no call of the run belongs to the other provider; and
  when lines 164 to 188 return, that construction is the first call of the run.
\<close>

lemma provider_precedence:
  fixes env fs request
  defines "gk \<equiv> strip (Form [] (form_google_api_key request))"
    and "ok \<equiv> strip (Form [] (form_openai_api_key request))"
  assumes valid_text: "strip (Form [] (form_text_content request)) \<noteq> []"
    and valid_key: "\<not> (gk = [] \<and> ok = [])"
  shows "(\<forall>gm gem om.
            fst (init_model env gk ok gm gem om) =
              [if gk \<noteq> [] then GenaiInit gk gm gem else OpenAIInit ok] \<and>
            (\<forall>model. snd (init_model env gk ok gm gem om) = Inr model \<longrightarrow>
               model = (if gk \<noteq> [] then Gemini gm gem else OpenAI om))) \<and>
         (\<forall>e \<in> set (fst (snd (generate_ebook env fs request))).
            if gk \<noteq> [] then \<not> is_openai e else \<not> is_gemini e)"
proof (intro conjI allI ballI impI)
  fix gm gem om
  show "fst (init_model env gk ok gm gem om) =
      [if gk \<noteq> [] then GenaiInit gk gm gem else OpenAIInit ok]"
    using valid_key by (rule init_model_selects)
next
  fix gm gem om model
  assume "snd (init_model env gk ok gm gem om) = Inr model"
  then have "init_model env gk ok gm gem om = (fst (init_model env gk ok gm gem om), Inr model)"
    by (metis prod.collapse)
  then show "model = (if gk \<noteq> [] then Gemini gm gem else OpenAI om)"
    by (rule init_model_client)
next
  fix e
  assume e: "e \<in> set (fst (snd (generate_ebook env fs request)))"
  obtain fs' trace response where run: "generate_ebook env fs request = (fs', trace, response)"
    by (cases "generate_ebook env fs request")
  with e have e': "e \<in> set trace" by simp
  from run show "if gk \<noteq> [] then \<not> is_openai e else \<not> is_gemini e"
  proof (cases rule: generate_ebook_run)
    case (init_failed output_pdf texts)
    from init_model_events [OF init_failed(6)] e' show ?thesis
      by (auto simp: gk_def)
  next
    case (generation_failed output_pdf texts ev1 model ev2)
    from init_model_events [OF generation_failed(6)] init_model_client [OF generation_failed(6)]
      generation_events [OF generation_failed(7)] e' generation_failed(8)
    show ?thesis by (auto simp: gk_def split: if_splits)
  next
    case (rendered output_pdf texts ev1 model ev2 final_markdown ev3)
    from init_model_events [OF rendered(6)] init_model_client [OF rendered(6)]
      generation_events [OF rendered(7)] render_events [OF rendered(8)] e' rendered(9)
    show ?thesis by (auto simp: gk_def split: if_splits)
  qed (use e' in simp_all)
qed


lemma provider_selected_first:
  fixes env fs request
  defines "gk \<equiv> strip (Form [] (form_google_api_key request))"
    and "ok \<equiv> strip (Form [] (form_openai_api_key request))"
    and "gm \<equiv> or_str (strip (Form [] (form_google_model request))) (default_google_model env)"
  defines "gem \<equiv> or_str (strip (Form [] (form_google_edit_model request))) gm"
  assumes run: "generate_ebook env fs request = (fs', trace, response)"
    and valid_text: "strip (Form [] (form_text_content request)) \<noteq> []"
    and valid_key: "\<not> (gk = [] \<and> ok = [])"
    and resolved:
      "resolve_output_pdf env (strip (Form [] (form_output_path request))) = Inr output_pdf"
    and created: "mkdir env fs (parent output_pdf) = (fs1, None)"
    and uploads: "read_uploads env (form_files request) = Inr texts"
  shows "\<exists>rest. trace = (if gk \<noteq> [] then GenaiInit gk gm gem else OpenAIInit ok) # rest"
proof -
  have sel: "fst (init_model env gk ok gm gem om) =
      [if gk \<noteq> [] then GenaiInit gk gm gem else OpenAIInit ok]" for om
    using valid_key by (rule init_model_selects)
  note sel' = sel [unfolded gk_def ok_def gm_def gem_def]
  from run show ?thesis
  proof (cases rule: generate_ebook_run)
    case (init_failed output_pdf texts)
    from sel' [of "or_str (strip (Form [] (form_openai_model request))) ''gpt-4o-mini''"]
      init_failed(6)
    show ?thesis by (simp add: gk_def ok_def gm_def gem_def)
  next
    case (generation_failed output_pdf texts ev1 model ev2)
    from sel' [of "or_str (strip (Form [] (form_openai_model request))) ''gpt-4o-mini''"]
      generation_failed(6) generation_failed(8)
    show ?thesis by (simp add: gk_def ok_def gm_def gem_def)
  next
    case (rendered output_pdf texts ev1 model ev2 final_markdown ev3)
    from sel' [of "or_str (strip (Form [] (form_openai_model request))) ''gpt-4o-mini''"]
      rendered(6) rendered(9)
    show ?thesis by (simp add: gk_def ok_def gm_def gem_def)
  qed (use valid_text valid_key resolved created uploads in \<open>simp_all add: gk_def ok_def\<close>)
qed

subsection \<open>The rendered document\<close>

lemma render_name:
  "name p = name q \<Longrightarrow> render env p md = render env q md"
  by (simp add: render_def split: sum.splits)

text \<open>
  C9. A run that ends with the document changes nothing on the file system except for
  creating the parent directory of the output path: no file is written. The body of the
  response is what the renderer returned, and the output path appears in the response
  only as the file name of the content disposition: any other output path with the same
  name (whose directory can be created) gives the same calls and the same response.
\<close>

theorem rendered_document_not_persisted:
  assumes run: "generate_ebook env fs request =
      (fs', trace, StreamingResponse body media_type headers)"
  shows \<open>fs_files fs' = fs_files fs \<and>
    (\<exists>output_pdf html.
       resolve_output_pdf env (strip (Form [] (form_output_path request))) = Inr output_pdf \<and>
       fs_dirs fs' = fs_dirs fs \<union> set (prefixes (parent output_pdf)) \<and>
       WritePdfCall html \<in> set trace \<and> write_pdf env html = Inr body \<and>
       media_type = ''application/pdf'' \<and>
       headers = [(''Content-Disposition'',
                   ''attachment; filename="'' @ name output_pdf @ ''"'')] \<and>
       (\<forall>other other_pdf fs''.
          resolve_output_pdf env (strip (Form [] other)) = Inr other_pdf \<and>
          name other_pdf = name output_pdf \<and>
          mkdir env fs (parent other_pdf) = (fs'', None) \<longrightarrow>
          generate_ebook env fs (request\<lparr>form_output_path := other\<rparr>) =
            (fs'', trace, StreamingResponse body media_type headers)))\<close>
  using run
proof (cases rule: generate_ebook_run)
  case (init_failed output_pdf texts)
  from init_model_failure [OF init_failed(6)] show ?thesis by auto
next
  case (generation_failed output_pdf texts ev1 model ev2)
  from generation_failure [OF generation_failed(7)] show ?thesis by auto
next
  case (rendered output_pdf texts ev1 model ev2 final_markdown ev3)
  from render_streaming [OF rendered(8)] obtain html where
    html: "write_pdf env html = Inr body" "ev3 = [MarkdownCall final_markdown, WritePdfCall html]"
    and media: "media_type = ''application/pdf''"
    and hdr: \<open>headers = [(''Content-Disposition'',
                   ''attachment; filename="'' @ name output_pdf @ ''"'')]\<close>
    by blast
  from mkdir_effect [OF rendered(2)] have fs: "fs_files fs' = fs_files fs"
    "fs_dirs fs' = fs_dirs fs \<union> set (prefixes (parent output_pdf))"
    by simp_all
  have other: "generate_ebook env fs (request\<lparr>form_output_path := other\<rparr>) =
      (fs'', trace, StreamingResponse body media_type headers)"
    if "resolve_output_pdf env (strip (Form [] other)) = Inr other_pdf"
      and "name other_pdf = name output_pdf" and "mkdir env fs (parent other_pdf) = (fs'', None)"
    for other other_pdf fs''
    using that rendered(3-9) render_name [OF that(2), of env final_markdown]
    by (simp add: generate_ebook_def Let_def)
  from rendered(1) fs html media hdr rendered(9) other show ?thesis
    by (intro conjI exI [of _ output_pdf] exI [of _ html]) auto
qed simp_all

theorem rendered_document_not_persisted_witness:
  \<open>generate_ebook env0 fs0 request0 =
     (fs0\<lparr>fs_dirs := fs_dirs fs0 \<union> set (prefixes [''srv'', ''app''])\<rparr>,
      [GenaiInit ''g-key'' ''gemini-2.5-pro'' ''gemini-2.5-pro'',
       GenerateContent Analysis ''gemini-2.5-pro''
         (analysis_prompt ''Company history and mission statement'' ''Nenhuma''),
       GenerateContent Draft ''gemini-2.5-pro''
         (content_prompt_template_format ''formal'' ''# Titulo''
            ''Company history and mission statement'' ''Nenhuma''),
       GenerateContent Edit ''gemini-2.5-pro'' (edit_prompt_format ''# Titulo''),
       MarkdownCall ''# Titulo'', WritePdfCall ''<h1># Titulo</h1>''],
      StreamingResponse ''%PDF-1.7 <h1># Titulo</h1>'' ''application/pdf''
        [(''Content-Disposition'', ''attachment; filename="ebook_gerado.pdf"'')]) \<and>
   fs_files (fs0\<lparr>fs_dirs := fs_dirs fs0 \<union> set (prefixes [''srv'', ''app''])\<rparr>) = fs_files fs0 \<and>
   write_pdf env0 ''<h1># Titulo</h1>'' = Inr ''%PDF-1.7 <h1># Titulo</h1>''\<close>
proof -
  have same: "fs0\<lparr>fs_dirs := fs_dirs fs0 \<union> set (prefixes [''srv'', ''app''])\<rparr> = fs0"
    by (simp add: fs0_def insert_commute)
  have rendered: "write_pdf env0 ''<h1># Titulo</h1>'' = Inr ''%PDF-1.7 <h1># Titulo</h1>''"
    by (simp add: env0_def)
  from rendered_document_not_persisted [OF run_env0] show ?thesis
    unfolding same by (simp add: run_env0 rendered)
qed

subsection \<open>Response text\<close>




text \<open>A top-level text whose reading raises: the exception leaves \<^verbatim>\<open>_response_text\<close>
  before the candidates are looked at, and the stage that made the call fails with it.\<close>

lemma raising_text_property_propagates:
  "resp_text response = Inl exc \<Longrightarrow> response_text response = Inl exc"
  by (simp add: response_text_def)











subsection \<open>Uploads\<close>


text \<open>
  What the extractor does otherwise. For uploads whose page documents the reader can
  read, it returns, in the order of the uploads, what each of them contributes: for a page
  document its non-empty page texts in page order, each a fragment of its own; for a
  plain-text file its decoded text; nothing for an upload with an empty body, and nothing,
  and no error, for any other extension.
\<close>

lemma extract_pages_ok:
  "list_all (\<lambda>pg. case pg of Inl exc \<Rightarrow> False | Inr t \<Rightarrow> True) pages \<Longrightarrow>
   extract_pages texts pages =
     Inr (texts @ filter (\<lambda>t. t \<noteq> []) (map (\<lambda>pg. case pg of Inl exc \<Rightarrow> [] | Inr t \<Rightarrow> t) pages))"
  by (induction pages arbitrary: texts) (auto split: sum.splits)

lemma extract_loop_ok:
  "\<forall>u \<in> set files. readable env u \<Longrightarrow>
   extract_loop env texts files = Inr (texts @ concat (map (fragments_of env) files))"
proof (induction files arbitrary: texts)
  case Nil
  then show ?case by simp
next
  case (Cons u files)
  from Cons.prems have rest: "\<forall>u \<in> set files. readable env u" and u: "readable env u"
    by simp_all
  note IH = Cons.IH [OF rest]
  show ?case
  proof (cases "up_body u \<noteq> [] \<and>
      endswith (lower (case up_filename u of None \<Rightarrow> [] | Some f \<Rightarrow> f)) ''.pdf''")
    case True
    with u obtain pages where pages: "pdf_reader env (up_body u) = Inr pages"
      and ok: "list_all (\<lambda>pg. case pg of Inl exc \<Rightarrow> False | Inr t \<Rightarrow> True) pages"
      by (auto simp: readable_def Let_def split: sum.splits)
    from True pages extract_pages_ok [OF ok] IH show ?thesis
      by (simp add: fragments_of_def Let_def)
  next
    case False
    with IH show ?thesis
      by (auto simp: fragments_of_def Let_def)
  qed
qed

lemma uploads_fragments_in_order:
  assumes "\<forall>u \<in> set files. readable env u"
  shows "extract_text_from_uploads env files = Inr (concat (map (fragments_of env) files))"
  using extract_loop_ok [OF assms, of "[]"]
  by (simp add: extract_text_from_uploads_def)

lemma uploads_fragments_in_order_example:
  "list_all (readable env0) uploads0 \<and>
   map (fragments_of env0) uploads0 = [[''page two'', ''page five''], [], [], [''hello'']] \<and>
   extract_text_from_uploads env0 uploads0 = Inr [''page two'', ''page five'', ''hello'']"
  using uploads_fragments_in_order [where env = env0 and files = uploads0]
  by (simp add: uploads0_def readable_def fragments_of_def Let_def env0_def six_pages_def
      lower_def lower_char_def char_of_def bit_Suc_0_iff endswith_def)

subsection \<open>The persona in the prompts\<close>

lemma strip_neutra: "strip ''neutra'' = ''neutra''"
  by (simp add: strip_def is_space_def)

lemma personality_normalised:
  "or_str (strip (or_str (Form ''neutra'' label) ''neutra'')) ''neutra'' =
     (case label of
        None \<Rightarrow> ''neutra''
      | Some l \<Rightarrow> if strip l = [] then ''neutra'' else strip l)"
  by (cases label) (auto simp: Form_def or_str_def strip_neutra)

lemma draft_prompt_has_persona:
  "sublist personality
     (content_prompt_template_format personality analysis_summary text_content references)"
  unfolding content_prompt_template_format_def by (rule sublist_appendI)

lemma gemini_generation_prompts:
  assumes "gemini_generation env cm em pers txt refs = (ev, r)" and "e \<in> set ev"
  shows "(\<forall>p. prompt_of e = Some (Draft, p) \<longrightarrow> sublist pers p) \<and>
         (\<forall>p. prompt_of e = Some (Analysis, p) \<longrightarrow> p = analysis_prompt txt refs)"
  using assms
  by (auto simp: gemini_generation_def Let_def draft_prompt_has_persona
      split: sum.splits if_splits)

lemma openai_generation_prompts:
  assumes "openai_generation env om pers txt refs = (ev, r)" and "e \<in> set ev"
  shows "(\<forall>p. prompt_of e = Some (Draft, p) \<longrightarrow> sublist pers p) \<and>
         (\<forall>p. prompt_of e = Some (Analysis, p) \<longrightarrow> p = analysis_prompt txt refs)"
  using assms
  by (auto simp: openai_generation_def Let_def draft_prompt_has_persona content_messages_def
      edit_messages_def split: sum.splits if_splits)

lemma generation_prompts:
  assumes gen: "generation env model pers txt refs = (ev, r)" and e: "e \<in> set ev"
  shows "(\<forall>p. prompt_of e = Some (Draft, p) \<longrightarrow> sublist pers p) \<and>
         (\<forall>p. prompt_of e = Some (Analysis, p) \<longrightarrow> p = analysis_prompt txt refs)"
proof (cases model)
  case (Gemini cm em)
  with gen have "gemini_generation env cm em pers txt refs = (ev, r)"
    by (simp add: generation_def)
  from gemini_generation_prompts [OF this e] show ?thesis .
next
  case (OpenAI om)
  with gen have "openai_generation env om pers txt refs = (ev, r)"
    by (simp add: generation_def)
  from openai_generation_prompts [OF this e] show ?thesis .
qed

lemma generation_has_draft:
  assumes "generation env model pers txt refs = (ev, Inr final_markdown)"
  shows "\<exists>e \<in> set ev. \<exists>p. prompt_of e = Some (Draft, p)"
  using assms
  by (cases model)
    (auto simp: generation_def gemini_generation_def openai_generation_def Let_def
      content_messages_def split: sum.splits if_splits)

text \<open>
  C3, as amended. The persona label is the label of the form stripped of surrounding
  white space, and \<^verbatim>\<open>neutra\<close> when the field is absent or blank. In every run, the
  prompt of the draft stage (for the chat provider: its system turn) contains that label,
  and a run that ends with the document has issued a draft-stage call. The prompt of the
  analysis stage is the analysis template filled with the main text and with the
  reference text extracted from the uploads, and with nothing else: it is the same
  whatever the persona label is.
\<close>

theorem persona_in_draft_prompt:
  assumes run: "generate_ebook env fs request = (fs', trace, response)"
  shows "(\<forall>e \<in> set trace.
            (\<forall>p. prompt_of e = Some (Draft, p) \<longrightarrow>
               sublist
                 (case form_personality request of
                    None \<Rightarrow> ''neutra''
                  | Some l \<Rightarrow> if strip l = [] then ''neutra'' else strip l) p) \<and>
            (\<forall>p. prompt_of e = Some (Analysis, p) \<longrightarrow>
               (\<exists>texts.
                  read_uploads env (form_files request) = Inr texts \<and>
                  p = analysis_prompt (strip (Form [] (form_text_content request)))
                        (or_str (strip (join_nl texts)) ''Nenhuma'')))) \<and>
         ((\<exists>body media_type headers. response = StreamingResponse body media_type headers) \<longrightarrow>
            (\<exists>e \<in> set trace. \<exists>p. prompt_of e = Some (Draft, p)))"
  using run
proof (cases rule: generate_ebook_run)
  case (init_failed output_pdf texts)
  from init_model_events [OF init_failed(6)] init_model_failure [OF init_failed(6)]
  show ?thesis by auto
next
  case (generation_failed output_pdf texts ev1 model ev2)
  from init_model_events [OF generation_failed(6)]
    generation_prompts [OF generation_failed(7)] generation_failed(5,8)
    generation_failure [OF generation_failed(7)]
  show ?thesis unfolding personality_normalised by auto
next
  case (rendered output_pdf texts ev1 model ev2 final_markdown ev3)
  from generation_has_draft [OF rendered(7)] rendered(9)
  have draft: "\<exists>e \<in> set trace. \<exists>p. prompt_of e = Some (Draft, p)"
    by auto
  from init_model_events [OF rendered(6)] generation_prompts [OF rendered(7)]
    render_events [OF rendered(8)] rendered(5,9)
  have "\<forall>e \<in> set trace.
          (\<forall>p. prompt_of e = Some (Draft, p) \<longrightarrow>
             sublist
               (case form_personality request of
                  None \<Rightarrow> ''neutra''
                | Some l \<Rightarrow> if strip l = [] then ''neutra'' else strip l) p) \<and>
          (\<forall>p. prompt_of e = Some (Analysis, p) \<longrightarrow>
             (\<exists>texts.
                read_uploads env (form_files request) = Inr texts \<and>
                p = analysis_prompt (strip (Form [] (form_text_content request)))
                      (or_str (strip (join_nl texts)) ''Nenhuma'')))"
    unfolding personality_normalised by auto
  with draft show ?thesis by blast
qed simp_all

theorem persona_in_draft_prompt_witness:
  "form_personality request0 = Some ''formal'' \<and>
   read_uploads env0 (form_files request0) = Inr [] \<and>
   GenerateContent Draft ''gemini-2.5-pro''
     (content_prompt_template_format ''formal'' ''# Titulo''
        ''Company history and mission statement'' ''Nenhuma'')
     \<in> set (fst (snd (generate_ebook env0 fs0 request0))) \<and>
   sublist ''formal''
     (content_prompt_template_format ''formal'' ''# Titulo''
        ''Company history and mission statement'' ''Nenhuma'') \<and>
   GenerateContent Analysis ''gemini-2.5-pro''
     (analysis_prompt ''Company history and mission statement'' ''Nenhuma'')
     \<in> set (fst (snd (generate_ebook env0 fs0 request0)))"
  using persona_in_draft_prompt [OF run_env0] unfolding run_env0
  by (simp add: request0_def strip_def is_space_def read_uploads_def)

text \<open>
  C3 as stated fails: in the run of the request with the persona \<^verbatim>\<open>formal\<close>, the prompt
  of the analysis stage does not contain the persona.
\<close>

theorem analysis_prompt_lacks_persona:
  "form_personality request0 = Some ''formal'' \<and>
   GenerateContent Analysis ''gemini-2.5-pro''
     (analysis_prompt ''Company history and mission statement'' ''Nenhuma'')
     \<in> set (fst (snd (generate_ebook env0 fs0 request0))) \<and>
   \<not> sublist ''formal'' (analysis_prompt ''Company history and mission statement'' ''Nenhuma'')"
proof -
  have "\<not> sublist ''formal''
      (analysis_prompt ''Company history and mission statement'' ''Nenhuma'')"
    by code_simp
  then show ?thesis
    unfolding run_env0 by (simp add: request0_def)
qed

end
